theory Spec2Isabelle
  imports Complex_Main "HOL-Library.List_Lexorder" "HOL-Library.Char_ord"
begin

section \<open>Python values\<close>

text \<open>
  The records of \<^verbatim>\<open>dc_access.py\<close> and \<^verbatim>\<open>app.py\<close> are Python dicts
  whose values are numbers, strings, \<^verbatim>\<open>None\<close> or NaN. A float is a real number, one
  of the two infinities, or NaN: the arithmetic below is IEEE arithmetic without rounding
  and signed zeros, and the result of an operation on floats never overflows. Python's
  unbounded \<^verbatim>\<open>int\<close> is \<open>int\<close>; an \<^verbatim>\<open>int\<close> beyond the range of a float raises
  \<^verbatim>\<open>OverflowError\<close> where it is converted to one. A string is a list of code points
  below 256, and \<^verbatim>\<open>strip\<close>, \<^verbatim>\<open>lower\<close> and \<^verbatim>\<open>int\<close> read them as
  Python does.
\<close>

datatype pyfloat = Fin real | PosInf | NegInf | NaN

datatype pyval = PNone | PInt int | PFloat pyfloat | PStr string

datatype pyerr = AttributeError | TypeError | ValueError | IndexError | OverflowError

type_synonym pydict = "(string \<times> pyval) list"

text \<open>Python's \<^verbatim>\<open>float(s)\<close> on a string is a parameter of the development: \<open>None\<close> is
  its \<^verbatim>\<open>ValueError\<close>.\<close>

type_synonym strfloat = "string \<Rightarrow> pyfloat option"

text \<open>An exception ends the computation: the rest runs only on a result.\<close>

definition bind_err :: "pyerr + 'a \<Rightarrow> ('a \<Rightarrow> pyerr + 'b) \<Rightarrow> pyerr + 'b" where
  "bind_err x f = (case x of Inl e \<Rightarrow> Inl e | Inr a \<Rightarrow> f a)"

fun fneg :: "pyfloat \<Rightarrow> pyfloat" where
  "fneg (Fin a) = Fin (- a)"
| "fneg PosInf = NegInf"
| "fneg NegInf = PosInf"
| "fneg NaN = NaN"

fun fadd :: "pyfloat \<Rightarrow> pyfloat \<Rightarrow> pyfloat" where
  "fadd NaN _ = NaN"
| "fadd _ NaN = NaN"
| "fadd (Fin a) (Fin b) = Fin (a + b)"
| "fadd (Fin a) PosInf = PosInf"
| "fadd (Fin a) NegInf = NegInf"
| "fadd PosInf (Fin b) = PosInf"
| "fadd NegInf (Fin b) = NegInf"
| "fadd PosInf PosInf = PosInf"
| "fadd NegInf NegInf = NegInf"
| "fadd PosInf NegInf = NaN"
| "fadd NegInf PosInf = NaN"

definition fsub :: "pyfloat \<Rightarrow> pyfloat \<Rightarrow> pyfloat" where
  "fsub a b = fadd a (fneg b)"

definition inf_of_sign :: "real \<Rightarrow> pyfloat" where
  "inf_of_sign s = (if s = 0 then NaN else if 0 < s then PosInf else NegInf)"

fun fmul :: "pyfloat \<Rightarrow> pyfloat \<Rightarrow> pyfloat" where
  "fmul NaN _ = NaN"
| "fmul _ NaN = NaN"
| "fmul (Fin a) (Fin b) = Fin (a * b)"
| "fmul (Fin a) PosInf = inf_of_sign a"
| "fmul (Fin a) NegInf = inf_of_sign (- a)"
| "fmul PosInf (Fin b) = inf_of_sign b"
| "fmul NegInf (Fin b) = inf_of_sign (- b)"
| "fmul PosInf PosInf = PosInf"
| "fmul NegInf NegInf = PosInf"
| "fmul PosInf NegInf = NegInf"
| "fmul NegInf PosInf = NegInf"

text \<open>\<^verbatim>\<open>x / 12\<close>: the divisor of every division in the source is the literal 12.\<close>

fun fdiv12 :: "pyfloat \<Rightarrow> pyfloat" where
  "fdiv12 (Fin a) = Fin (a / 12)"
| "fdiv12 PosInf = PosInf"
| "fdiv12 NegInf = NegInf"
| "fdiv12 NaN = NaN"

definition float_of_int :: "int \<Rightarrow> pyfloat" where
  "float_of_int i = Fin (of_int i)"

text \<open>
  An \<^verbatim>\<open>int\<close> converts to a float when rounding it to the nearest double does not
  leave the range: the greatest double is 2^1024 - 2^971, and from 2^1024 - 2^970 on the
  conversion raises \<^verbatim>\<open>OverflowError\<close>.
\<close>

definition fits_float :: "int \<Rightarrow> bool" where
  "fits_float i = (\<bar>i\<bar> < 2 ^ 1024 - 2 ^ 970)"

definition int_to_float :: "int \<Rightarrow> pyerr + pyfloat" where
  "int_to_float i = (if fits_float i then Inr (float_of_int i) else Inl OverflowError)"

text \<open>\<^verbatim>\<open>f * n\<close> of a float and an \<^verbatim>\<open>int\<close>: the \<^verbatim>\<open>int\<close> is converted
  first.\<close>

definition fmul_int :: "pyfloat \<Rightarrow> int \<Rightarrow> pyerr + pyfloat" where
  "fmul_int f n = (if fits_float n then Inr (fmul f (float_of_int n)) else Inl OverflowError)"

text \<open>\<^verbatim>\<open>float(v)\<close>: \<^verbatim>\<open>TypeError\<close> on \<^verbatim>\<open>None\<close>, \<^verbatim>\<open>ValueError\<close> on a string
  that is no number, \<^verbatim>\<open>OverflowError\<close> on an \<^verbatim>\<open>int\<close> out of range.\<close>

fun py_float :: "strfloat \<Rightarrow> pyval \<Rightarrow> pyerr + pyfloat" where
  "py_float s2f PNone = Inl TypeError"
| "py_float s2f (PInt i) = int_to_float i"
| "py_float s2f (PFloat f) = Inr f"
| "py_float s2f (PStr s) = (case s2f s of None \<Rightarrow> Inl ValueError | Some f \<Rightarrow> Inr f)"

text \<open>\<^verbatim>\<open>v * months\<close> with an \<^verbatim>\<open>int\<close> on the right: a string is repeated
  (the count has to fit a 64-bit index; memory is not bounded here), \<^verbatim>\<open>None\<close>
  raises.\<close>

fun py_mul_int :: "pyval \<Rightarrow> int \<Rightarrow> pyerr + pyval" where
  "py_mul_int PNone n = Inl TypeError"
| "py_mul_int (PInt i) n = Inr (PInt (i * n))"
| "py_mul_int (PFloat f) n =
     (case fmul_int f n of Inl e \<Rightarrow> Inl e | Inr r \<Rightarrow> Inr (PFloat r))"
| "py_mul_int (PStr s) n =
     (if - (2 ^ 63) \<le> n \<and> n < 2 ^ 63 then Inr (PStr (concat (replicate (nat n) s)))
      else Inl OverflowError)"

text \<open>\<^verbatim>\<open>pd.isna\<close> on a scalar.\<close>

fun pd_isna :: "pyval \<Rightarrow> bool" where
  "pd_isna PNone = True"
| "pd_isna (PFloat NaN) = True"
| "pd_isna _ = False"

text \<open>Truth value of a scalar: \<^verbatim>\<open>None\<close>, zero and the empty string are false; NaN is
  true.\<close>

fun truthy :: "pyval \<Rightarrow> bool" where
  "truthy PNone = False"
| "truthy (PInt i) = (i \<noteq> 0)"
| "truthy (PFloat (Fin a)) = (a \<noteq> 0)"
| "truthy (PFloat _) = True"
| "truthy (PStr s) = (s \<noteq> [])"

subsection \<open>Strings\<close>

text \<open>The code points below 256 that \<^verbatim>\<open>str.isspace\<close> accepts; \<^verbatim>\<open>strip\<close> and
  \<^verbatim>\<open>int\<close> drop them at both ends.\<close>

definition is_space :: "char \<Rightarrow> bool" where
  "is_space c = ((of_char c :: nat) \<in> {9, 10, 11, 12, 13, 28, 29, 30, 31, 32, 133, 160})"

definition py_strip :: "string \<Rightarrow> string" where
  "py_strip s = rev (dropWhile is_space (rev (dropWhile is_space s)))"

text \<open>\<^verbatim>\<open>str.lower\<close> on one code point: A to Z, and 192 to 222 but for the
  multiplication sign 215, move up by 32.\<close>

definition lower_char :: "char \<Rightarrow> char" where
  "lower_char c =
     (case map_of (zip ''ABCDEFGHIJKLMNOPQRSTUVWXYZ'' ''abcdefghijklmnopqrstuvwxyz'') c of
        Some l \<Rightarrow> l
      | None \<Rightarrow>
          if 192 \<le> (of_char c :: nat) \<and> (of_char c :: nat) \<le> 222 \<and> (of_char c :: nat) \<noteq> 215
          then char_of ((of_char c :: nat) + 32) else c)"

definition py_lower :: "string \<Rightarrow> string" where
  "py_lower s = map lower_char s"

subsection \<open>Dicts\<close>

text \<open>\<^verbatim>\<open>d.get(k)\<close>, \<^verbatim>\<open>d.get(k, v0)\<close> and \<^verbatim>\<open>k in d\<close>.\<close>

definition dget :: "pydict \<Rightarrow> string \<Rightarrow> pyval" where
  "dget d k = (case map_of d k of None \<Rightarrow> PNone | Some v \<Rightarrow> v)"

definition dget_default :: "pydict \<Rightarrow> string \<Rightarrow> pyval \<Rightarrow> pyval" where
  "dget_default d k v0 = (case map_of d k of None \<Rightarrow> v0 | Some v \<Rightarrow> v)"

definition has_key :: "pydict \<Rightarrow> string \<Rightarrow> bool" where
  "has_key d k = (map_of d k \<noteq> None)"

section \<open>The cost resolver\<close>

text \<open>
  \<^verbatim>\<open>str(coverage_info.get('covered')).strip().lower() == 'yes'\<close>. \<^verbatim>\<open>str\<close> of
  \<^verbatim>\<open>None\<close> is \<^verbatim>\<open>'None'\<close>, and \<^verbatim>\<open>str\<close> of a number is a numeral,
  \<^verbatim>\<open>'nan'\<close>, \<^verbatim>\<open>'inf'\<close> or \<^verbatim>\<open>'-inf'\<close>: only a string value can compare equal.
\<close>

fun covered_yes :: "pyval \<Rightarrow> bool" where
  "covered_yes (PStr s) = (py_lower (py_strip s) = ''yes'')"
| "covered_yes _ = False"

definition covered_flag :: "pydict option \<Rightarrow> bool" where
  "covered_flag coverage_info =
     (case coverage_info of None \<Rightarrow> False | Some c \<Rightarrow> covered_yes (dget c ''covered''))"

text \<open>
  The \<^verbatim>\<open>try\<close> block of the uncovered branch: \<open>Some v\<close> when it returns \<open>v\<close>,
  \<open>None\<close> when control falls through to the fallback, also after a caught exception
  (\<^verbatim>\<open>medicine_info\<close> is \<^verbatim>\<open>None\<close>, or \<^verbatim>\<open>float(gr) * months\<close> raises).
\<close>

definition goodrx_return :: "strfloat \<Rightarrow> pydict option \<Rightarrow> pydict option \<Rightarrow> int \<Rightarrow> pyval option" where
  "goodrx_return s2f medicine_info insurance_info months =
     (case insurance_info of
        Some _ \<Rightarrow> None
      | None \<Rightarrow>
          (case medicine_info of
             None \<Rightarrow> None
           | Some m \<Rightarrow>
               (let gr = dget m ''goodrx_price'' in
                if gr \<noteq> PNone \<and> \<not> pd_isna gr then
                  (case bind_err (py_float s2f gr) (\<lambda>f. fmul_int f months) of
                     Inl _ \<Rightarrow> None
                   | Inr r \<Rightarrow> Some (PFloat r))
                else None)))"

text \<open>\<^verbatim>\<open>try: x = float(v) except Exception: x = 0.0\<close>\<close>

definition float_or_zero :: "strfloat \<Rightarrow> pyval \<Rightarrow> pyfloat" where
  "float_or_zero s2f v = (case py_float s2f v of Inl _ \<Rightarrow> Fin 0 | Inr f \<Rightarrow> f)"

definition calculate_total_cost ::
  "strfloat \<Rightarrow> pydict option \<Rightarrow> pydict option \<Rightarrow> pydict option \<Rightarrow> int \<Rightarrow> pyerr + pyval" where
  "calculate_total_cost s2f medicine_info insurance_info coverage_info months =
     (if \<not> covered_flag coverage_info then
        (case goodrx_return s2f medicine_info insurance_info months of
           Some v \<Rightarrow> Inr v
         | None \<Rightarrow>
             (case medicine_info of
                None \<Rightarrow> Inl AttributeError
              | Some m \<Rightarrow> py_mul_int (dget_default m ''average_cost_per_month'' (PInt 0)) months))
      else
        (case coverage_info of
           None \<Rightarrow> Inl AttributeError
         | Some c \<Rightarrow>
             (let copay = float_or_zero s2f (dget c ''copay_amount'');
                  deductible =
                    (case insurance_info of
                       None \<Rightarrow> Fin 0
                     | Some i \<Rightarrow>
                         if i \<noteq> [] \<and> dget i ''deductible'' \<noteq> PNone
                         then float_or_zero s2f (dget i ''deductible'') else Fin 0)
              in bind_err (fmul_int copay months) (\<lambda>total_copays.
                   Inr (PFloat (fadd deductible total_copays))))))"

section \<open>The data store\<close>

text \<open>
  The three tables of \<^verbatim>\<open>DiabetesCostComparator\<close>, in file order. The name columns
  hold strings and key the rows; beside its key a row carries the dict that
  \<^verbatim>\<open>iloc[0].to_dict()\<close> makes of it. A coverage row is keyed by
  (insurance name, medicine name). A lookup returns the first matching row, or
  \<^verbatim>\<open>None\<close>.
\<close>

record comparator =
  medicines_df :: "(string \<times> pydict) list"
  insurance_df :: "(string \<times> pydict) list"
  coverage_df :: "((string \<times> string) \<times> pydict) list"

definition get_medicine_info :: "comparator \<Rightarrow> string \<Rightarrow> pydict option" where
  "get_medicine_info db med_name = map_of (medicines_df db) med_name"

definition get_insurance_info :: "comparator \<Rightarrow> string \<Rightarrow> pydict option" where
  "get_insurance_info db ins_name = map_of (insurance_df db) ins_name"

definition get_coverage_info :: "comparator \<Rightarrow> string \<Rightarrow> string \<Rightarrow> pydict option" where
  "get_coverage_info db ins_name med_name = map_of (coverage_df db) (ins_name, med_name)"

section \<open>The pairing builder\<close>

text \<open>A \<^verbatim>\<open>for\<close> loop that appends one result per element; the first exception leaves
  it.\<close>

fun collect :: "('a \<Rightarrow> pyerr + 'b) \<Rightarrow> 'a list \<Rightarrow> pyerr + 'b list" where
  "collect f [] = Inr []"
| "collect f (x # xs) = bind_err (f x) (\<lambda>y. bind_err (collect f xs) (\<lambda>ys. Inr (y # ys)))"

text \<open>Truth value of a selection (\<^verbatim>\<open>None\<close> or a string) and of a record
  (\<^verbatim>\<open>None\<close> or a dict).\<close>

definition chosen :: "string option \<Rightarrow> bool" where
  "chosen sel = (case sel of None \<Rightarrow> False | Some n \<Rightarrow> n \<noteq> [])"

definition dict_truthy :: "pydict option \<Rightarrow> bool" where
  "dict_truthy r = (case r of None \<Rightarrow> False | Some d \<Rightarrow> d \<noteq> [])"

text \<open>
  \<^verbatim>\<open>annual_cost / 12\<close>: the quotient of an \<^verbatim>\<open>int\<close> is the exact one, rounded,
  and \<^verbatim>\<open>OverflowError\<close> when that is beyond the floats; \<^verbatim>\<open>None\<close> and a string
  raise \<^verbatim>\<open>TypeError\<close>.
\<close>

fun py_div12 :: "pyval \<Rightarrow> pyerr + pyfloat" where
  "py_div12 (PInt i) =
     (if \<bar>i\<bar> < 12 * (2 ^ 1024 - 2 ^ 970) then Inr (Fin (of_int i / 12)) else Inl OverflowError)"
| "py_div12 (PFloat f) = Inr (fdiv12 f)"
| "py_div12 _ = Inl TypeError"

text \<open>\<^verbatim>\<open>full_annual - annual_cost\<close>, a float minus a value: an \<^verbatim>\<open>int\<close> is
  converted to a float first.\<close>

fun py_rsub :: "pyfloat \<Rightarrow> pyval \<Rightarrow> pyerr + pyfloat" where
  "py_rsub a (PInt i) = bind_err (int_to_float i) (\<lambda>b. Inr (fsub a b))"
| "py_rsub a (PFloat b) = Inr (fsub a b)"
| "py_rsub a _ = Inl TypeError"

text \<open>
  A cost as a pairing keeps it: a number by its value, \<^verbatim>\<open>None\<close> as \<open>None\<close>. (No
  pairing keeps a string: a cost is divided by 12 before it is stored.)
\<close>

fun as_number :: "pyval \<Rightarrow> pyfloat option" where
  "as_number (PInt i) = Some (float_of_int i)"
| "as_number (PFloat f) = Some f"
| "as_number _ = None"

text \<open>
  A pairing. A field that a row may lack, or hold \<^verbatim>\<open>None\<close> in, is an option
  (\<open>None\<close> is what \<^verbatim>\<open>p.get\<close> returns); \<open>is_cash\<close> is the presence of that key,
  which only the cash row has; \<open>goodrx_eligible\<close> is false on the cash row, which has no
  such key.
\<close>

record pairing =
  medicine_name :: string
  insurance_name :: string
  medicine :: "pydict option"
  insurance :: "pydict option"
  coverage :: "pydict option"
  annual_cost :: "pyfloat option"
  monthly_cost :: "pyfloat option"
  full_monthly :: pyfloat
  full_annual :: pyfloat
  goodrx_price :: "pyfloat option"
  goodrx_eligible :: bool
  unauth_annual :: "pyfloat option"
  copay_amount :: "pyfloat option"
  monthly_savings :: "pyfloat option"
  annual_savings :: "pyfloat option"
  is_cash :: bool
  is_higher_tier :: "bool option"

text \<open>\<^verbatim>\<open>try: full_monthly = float(med_info.get("average_cost_per_month", 0))\<close>, 0.0 on
  any exception (\<^verbatim>\<open>med_info\<close> is \<^verbatim>\<open>None\<close>, or \<^verbatim>\<open>float\<close> raises).\<close>

definition average_monthly :: "strfloat \<Rightarrow> pydict option \<Rightarrow> pyfloat" where
  "average_monthly s2f med_info =
     (case med_info of
        None \<Rightarrow> Fin 0
      | Some m \<Rightarrow> float_or_zero s2f (dget_default m ''average_cost_per_month'' (PInt 0)))"

text \<open>The explicit GoodRx price of \<^verbatim>\<open>add_pair\<close>, \<^verbatim>\<open>None\<close> on any exception.\<close>

definition goodrx_of :: "strfloat \<Rightarrow> pydict option \<Rightarrow> pyfloat option" where
  "goodrx_of s2f med_info =
     (case med_info of
        None \<Rightarrow> None
      | Some m \<Rightarrow>
          (let gr = dget m ''goodrx_price'' in
           if gr \<noteq> PNone \<and> gr \<noteq> PStr [] \<and> \<not> pd_isna gr then
             (case py_float s2f gr of Inl _ \<Rightarrow> None | Inr f \<Rightarrow> Some f)
           else None))"

definition copay_of :: "strfloat \<Rightarrow> pydict option \<Rightarrow> pyfloat option" where
  "copay_of s2f cov_info =
     (case cov_info of
        None \<Rightarrow> None
      | Some c \<Rightarrow>
          if c \<noteq> [] \<and> has_key c ''copay_amount'' \<and> dget c ''copay_amount'' \<noteq> PNone then
            (case py_float s2f (dget c ''copay_amount'') of Inl _ \<Rightarrow> None | Inr f \<Rightarrow> Some f)
          else None)"

text \<open>\<^verbatim>\<open>add_pair\<close>, the helper of \<^verbatim>\<open>build_pairings\<close>; \<open>selected_insurance\<close> is
  the variable of the enclosing call. The result is the dict it appends.\<close>

definition add_pair ::
  "strfloat \<Rightarrow> comparator \<Rightarrow> string option \<Rightarrow> string \<Rightarrow> string \<Rightarrow> pyerr + pairing" where
  "add_pair s2f db selected_insurance med_name ins_name =
     (let med_info = get_medicine_info db med_name;
          ins_info = get_insurance_info db ins_name;
          cov_info = get_coverage_info db ins_name med_name
      in bind_err (calculate_total_cost s2f med_info ins_info cov_info 12) (\<lambda>annual.
         bind_err (py_div12 annual) (\<lambda>monthly.
           (let gr = goodrx_of s2f med_info;
                full_m = (case gr of
                            Some g \<Rightarrow> if \<not> chosen selected_insurance then g
                                      else average_monthly s2f med_info
                          | None \<Rightarrow> average_monthly s2f med_info);
                full_a = fmul full_m (Fin 12);
                copay = copay_of s2f cov_info
            in bind_err (py_rsub full_a annual) (\<lambda>savings.
                 Inr \<lparr> medicine_name = med_name,
                        insurance_name = ins_name,
                        medicine = med_info,
                        insurance = ins_info,
                        coverage = cov_info,
                        annual_cost = as_number annual,
                        monthly_cost = Some monthly,
                        full_monthly = full_m,
                        full_annual = full_a,
                        goodrx_price = gr,
                        goodrx_eligible = (gr \<noteq> None),
                        unauth_annual = None,
                        copay_amount = copay,
                        monthly_savings = map_option (fsub full_m) copay,
                        annual_savings = Some savings,
                        is_cash = False,
                        is_higher_tier = None \<rparr>)))))"

text \<open>The name a selection holds; the empty string stands for \<^verbatim>\<open>None\<close>, and both are
  false as conditions.\<close>

definition name_of :: "string option \<Rightarrow> string" where
  "name_of sel = (case sel of None \<Rightarrow> [] | Some n \<Rightarrow> n)"

definition build_pairings ::
  "strfloat \<Rightarrow> comparator \<Rightarrow> string option \<Rightarrow> string option \<Rightarrow> pyerr + pairing list" where
  "build_pairings s2f db selected_medicine selected_insurance =
     (let med_list = map fst (medicines_df db);
          ins_list = map fst (insurance_df db);
          add = add_pair s2f db selected_insurance
      in if \<not> chosen selected_medicine \<and> \<not> chosen selected_insurance then
           collect (\<lambda>(m, i). add m i) (List.product med_list ins_list)
         else if chosen selected_medicine \<and> \<not> chosen selected_insurance then
           collect (\<lambda>i. add (name_of selected_medicine) i) ins_list
         else if \<not> chosen selected_medicine \<and> chosen selected_insurance then
           collect (\<lambda>m. add m (name_of selected_insurance)) med_list
         else
           bind_err (add (name_of selected_medicine) (name_of selected_insurance))
             (\<lambda>p. Inr [p]))"

section \<open>Tiers\<close>

text \<open>\<^verbatim>\<open>s.replace('tier', '')\<close>: every occurrence, left to right, without overlap.\<close>

fun remove_tier :: "string \<Rightarrow> string" where
  "remove_tier [] = []"
| "remove_tier (c # cs) =
     (if take 4 (c # cs) = ''tier'' then remove_tier (drop 3 cs) else c # remove_tier cs)"

text \<open>
  \<^verbatim>\<open>int(s)\<close> on a string: blanks around, an optional sign, then decimal digits, where
  single underscores may stand between digits. \<open>None\<close> is its \<^verbatim>\<open>ValueError\<close>.
  The limit that newer interpreters put on the number of digits is left out.
\<close>

definition digit_val :: "char \<Rightarrow> nat option" where
  "digit_val c = map_of (zip ''0123456789'' [0, 1, 2, 3, 4, 5, 6, 7, 8, 9]) c"

fun int_digits :: "nat \<Rightarrow> bool \<Rightarrow> string \<Rightarrow> nat option" where
  "int_digits acc after_digit [] = (if after_digit then Some acc else None)"
| "int_digits acc after_digit (c # cs) =
     (if c = CHR ''_'' then
        (if after_digit \<and> cs \<noteq> [] then int_digits acc False cs else None)
      else
        (case digit_val c of
           None \<Rightarrow> None
         | Some d \<Rightarrow> int_digits (10 * acc + d) True cs))"

definition py_int_str :: "string \<Rightarrow> int option" where
  "py_int_str s =
     (case py_strip s of
        [] \<Rightarrow> None
      | c # cs \<Rightarrow>
          if c = CHR ''-'' then map_option (\<lambda>n. - int n) (int_digits 0 False cs)
          else if c = CHR ''+'' then map_option int (int_digits 0 False cs)
          else map_option int (int_digits 0 False (c # cs)))"

text \<open>
  The body of \<^verbatim>\<open>tier_num\<close>, inside its \<^verbatim>\<open>try\<close>. For a value that is no string,
  \<^verbatim>\<open>str\<close> comes first: the numeral of a non-zero \<^verbatim>\<open>int\<close> has no blank and no
  letter and \<^verbatim>\<open>int\<close> reads it back; the text of a non-zero float has a point, an
  exponent, \<^verbatim>\<open>inf\<close> or \<^verbatim>\<open>nan\<close>, and \<^verbatim>\<open>int\<close> raises on it.
\<close>

fun tier_num_body :: "pyval \<Rightarrow> pyerr + int option" where
  "tier_num_body PNone = Inr None"
| "tier_num_body (PStr s) =
     (if s = [] then Inr None
      else (case py_int_str (py_strip (remove_tier (py_lower (py_strip s)))) of
              None \<Rightarrow> Inl ValueError
            | Some n \<Rightarrow> Inr (Some n)))"
| "tier_num_body (PInt i) = (if i = 0 then Inr None else Inr (Some i))"
| "tier_num_body (PFloat f) = (if f = Fin 0 then Inr None else Inl ValueError)"

definition tier_num :: "pyval \<Rightarrow> int option" where
  "tier_num tier_str = (case tier_num_body tier_str of Inl _ \<Rightarrow> None | Inr t \<Rightarrow> t)"

text \<open>\<^verbatim>\<open>cov.get("tier_level") if cov else None\<close>\<close>

definition tier_level_of :: "pydict option \<Rightarrow> pyval" where
  "tier_level_of cov =
     (case cov of None \<Rightarrow> PNone | Some c \<Rightarrow> if c \<noteq> [] then dget c ''tier_level'' else PNone)"

section \<open>The request handler\<close>

text \<open>
  The fields of a POST form, each absent or a string, and what \<^verbatim>\<open>index\<close> hands to
  the template. \<^verbatim>\<open>v or None\<close> keeps a non-empty string.
\<close>

record form =
  f_trial_action :: "string option"
  f_trial_answer :: "string option"
  f_trial_index :: "string option"
  f_medicine :: "string option"
  f_insurance :: "string option"
  f_tried :: "string option"
  f_sort_by :: "string option"
  f_order :: "string option"

definition or_none :: "string option \<Rightarrow> string option" where
  "or_none v = (if chosen v then v else None)"

definition TRIAL_SEQUENCE :: "string list" where
  "TRIAL_SEQUENCE = [''Metformin'', ''Glipizide'', ''Invokana'', ''Januvia'', ''Tirzepatide'',
     ''Semaglutide'', ''Jardiance'']"

definition UNAUTHORIZED_COSTS :: "((string \<times> string) \<times> real) list" where
  "UNAUTHORIZED_COSTS = [((''Cigna'', ''Empagliflozin''), 811), ((''Cigna'', ''Januvia''), 721)]"

text \<open>\<^verbatim>\<open>seq[i]\<close>: an index below zero counts from the end, one out of range raises.\<close>

definition py_index :: "'a list \<Rightarrow> int \<Rightarrow> pyerr + 'a" where
  "py_index seq i =
     (if 0 \<le> i \<and> i < int (length seq) then Inr (seq ! nat i)
      else if i < 0 \<and> - int (length seq) \<le> i then Inr (seq ! nat (int (length seq) + i))
      else Inl IndexError)"

subsection \<open>The trial flow\<close>

text \<open>\<^verbatim>\<open>try: trial_index = int(request.form.get("trial_index") or 0)\<close>, 0 on an
  exception.\<close>

definition form_trial_index :: "form \<Rightarrow> int" where
  "form_trial_index fm =
     (case or_none (f_trial_index fm) of
        None \<Rightarrow> 0
      | Some s \<Rightarrow> (case py_int_str s of None \<Rightarrow> 0 | Some n \<Rightarrow> n))"

text \<open>What the trial block of \<^verbatim>\<open>index\<close> leaves in its variables.\<close>

record trial_state =
  t_selected :: "string option"
  t_question :: "string option"
  t_index :: int
  t_skip :: bool
  t_show_all :: bool

definition trial_start :: trial_state where
  "trial_start = \<lparr> t_selected = None, t_question = None, t_index = 0, t_skip = False,
                    t_show_all = False \<rparr>"

definition trial_flow :: "string list \<Rightarrow> form \<Rightarrow> pyerr + trial_state" where
  "trial_flow seq fm =
     (if f_trial_action fm = Some ''trial'' then
        (let trial_index = form_trial_index fm in
         case f_trial_answer fm of
           None \<Rightarrow> Inr (trial_start \<lparr> t_index := trial_index \<rparr>)
         | Some trial_answer \<Rightarrow>
             if py_lower (py_strip trial_answer) = ''no'' then
               (if trial_index < int (length seq) then
                  bind_err (py_index seq trial_index)
                    (\<lambda>m. Inr (trial_start \<lparr> t_selected := Some m, t_index := trial_index \<rparr>))
                else Inr (trial_start \<lparr> t_index := trial_index \<rparr>))
             else
               (let trial_index = trial_index + 1 in
                if trial_index < int (length seq) then
                  bind_err (py_index seq trial_index)
                    (\<lambda>q. Inr (trial_start \<lparr> t_question := Some q, t_index := trial_index,
                                             t_skip := True \<rparr>))
                else Inr (trial_start \<lparr> t_index := trial_index, t_show_all := True \<rparr>)))
      else Inr trial_start)"

subsection \<open>The cash row, the tier flag, the unauthorized price\<close>

text \<open>
  The row \<^verbatim>\<open>index\<close> inserts for the GoodRx cash price, \<open>None\<close> when its guard is false
  or an exception inside its \<^verbatim>\<open>try\<close> is caught. The guard tests the price itself as a
  condition.
\<close>

definition cash_row :: "strfloat \<Rightarrow> comparator \<Rightarrow> string \<Rightarrow> pairing option" where
  "cash_row s2f db med_name =
     (let med_info = get_medicine_info db med_name in
      case med_info of
        None \<Rightarrow> None
      | Some m \<Rightarrow>
          if m \<noteq> [] \<and> truthy (dget m ''goodrx_price'') \<and> \<not> pd_isna (dget m ''goodrx_price'') then
            (case calculate_total_cost s2f med_info None None 12 of
               Inl _ \<Rightarrow> None
             | Inr gr_annual \<Rightarrow>
                 (case py_div12 gr_annual of
                    Inl _ \<Rightarrow> None
                  | Inr monthly \<Rightarrow>
                      (case py_float s2f (dget m ''goodrx_price'') of
                         Inl _ \<Rightarrow> None
                       | Inr g \<Rightarrow>
                           Some \<lparr> medicine_name = med_name,
                                  insurance_name = ''GoodRx (CVS - DC)'',
                                  medicine = med_info,
                                  insurance = None,
                                  coverage = None,
                                  annual_cost = as_number gr_annual,
                                  monthly_cost = Some monthly,
                                  full_monthly = g,
                                  full_annual = fmul g (Fin 12),
                                  goodrx_price = None,
                                  goodrx_eligible = False,
                                  unauth_annual = None,
                                  copay_amount = None,
                                  monthly_savings = None,
                                  annual_savings = None,
                                  is_cash = True,
                                  is_higher_tier = None \<rparr>)))
          else None)"

definition inject_cash ::
  "strfloat \<Rightarrow> comparator \<Rightarrow> string option \<Rightarrow> string option \<Rightarrow> pairing list \<Rightarrow> pairing list" where
  "inject_cash s2f db selected_medicine selected_insurance pairings =
     (if chosen selected_medicine \<and> \<not> chosen selected_insurance then
        (case cash_row s2f db (name_of selected_medicine) of
           None \<Rightarrow> pairings
         | Some p \<Rightarrow> p # pairings)
      else pairings)"

definition higher_tier :: "comparator \<Rightarrow> string \<Rightarrow> pairing \<Rightarrow> bool" where
  "higher_tier db med_name p =
     (let sel_cov = get_coverage_info db (insurance_name p) med_name;
          sel_t = tier_num (tier_level_of sel_cov);
          p_cov = coverage p;
          p_t = tier_num (tier_level_of p_cov)
      in case p_t of
           None \<Rightarrow> False
         | Some a \<Rightarrow> (case sel_t of None \<Rightarrow> False | Some b \<Rightarrow> b < a))"

definition flag_higher_tier :: "comparator \<Rightarrow> string \<Rightarrow> pairing list \<Rightarrow> pairing list" where
  "flag_higher_tier db med_name pairings =
     map (\<lambda>p. p \<lparr> is_higher_tier := Some (higher_tier db med_name p) \<rparr>) pairings"

definition set_unauth :: "pairing \<Rightarrow> pairing" where
  "set_unauth p =
     p \<lparr> unauth_annual :=
           Some (case map_of UNAUTHORIZED_COSTS (insurance_name p, medicine_name p) of
                   None \<Rightarrow> full_annual p
                 | Some u \<Rightarrow> Fin u) \<rparr>"

subsection \<open>Sorting\<close>

text \<open>
  The keys of \<^verbatim>\<open>_key\<close>: a lowercased name, or a float where a missing cost is
  \<^verbatim>\<open>float('inf')\<close> and a missing saving \<^verbatim>\<open>-float('inf')\<close>. Floats other than
  NaN are linearly ordered; \<open>ext\<close> is that order.
\<close>

definition key_name :: "string \<Rightarrow> pairing \<Rightarrow> string" where
  "key_name sort_by p =
     (if sort_by = ''medicine'' then py_lower (medicine_name p)
      else py_lower (insurance_name p))"

definition key_float :: "string \<Rightarrow> pairing \<Rightarrow> pyfloat" where
  "key_float sort_by p =
     (if sort_by = ''monthly'' then (case monthly_cost p of None \<Rightarrow> PosInf | Some c \<Rightarrow> c)
      else if sort_by = ''savings'' then (case annual_savings p of None \<Rightarrow> NegInf | Some c \<Rightarrow> c)
      else (case annual_cost p of None \<Rightarrow> PosInf | Some c \<Rightarrow> c))"

datatype ext = MinusInf | EFin real | PlusInf

fun ext_le :: "ext \<Rightarrow> ext \<Rightarrow> bool" where
  "ext_le MinusInf _ = True"
| "ext_le _ PlusInf = True"
| "ext_le (EFin a) (EFin b) = (a \<le> b)"
| "ext_le _ _ = False"

instantiation ext :: linorder
begin

definition less_eq_ext :: "ext \<Rightarrow> ext \<Rightarrow> bool" where
  "less_eq_ext a b = ext_le a b"

definition less_ext :: "ext \<Rightarrow> ext \<Rightarrow> bool" where
  "less_ext a b = (ext_le a b \<and> \<not> ext_le b a)"

instance
proof
  fix x y z :: ext
  show "(x < y) = (x \<le> y \<and> \<not> y \<le> x)"
    by (simp add: less_ext_def less_eq_ext_def)
  show "x \<le> x"
    by (cases x) (simp_all add: less_eq_ext_def)
  show "x \<le> y \<Longrightarrow> y \<le> z \<Longrightarrow> x \<le> z"
    by (cases x; cases y; cases z) (simp_all add: less_eq_ext_def)
  show "x \<le> y \<Longrightarrow> y \<le> x \<Longrightarrow> x = y"
    by (cases x; cases y) (simp_all add: less_eq_ext_def)
  show "x \<le> y \<or> y \<le> x"
    by (cases x; cases y) (auto simp: less_eq_ext_def)
qed

end

text \<open>The place of a float in the order; NaN has none, and \<open>sort_pairings\<close> below orders
  by it only lists without a NaN key.\<close>

fun ext_of :: "pyfloat \<Rightarrow> ext" where
  "ext_of (Fin a) = EFin a"
| "ext_of PosInf = PlusInf"
| "ext_of NegInf = MinusInf"
| "ext_of NaN = PlusInf"

text \<open>
  \<^verbatim>\<open>list.sort(key=k, reverse=r)\<close> over linearly ordered keys. The sort is stable, and
  with \<^verbatim>\<open>reverse\<close> it reverses the list, sorts it and reverses the result, so that equal
  keys keep their order. A stable sort by a linear order has one result; \<open>sort_key\<close> is
  the library's stable insertion sort.
\<close>

definition py_sort :: "('a \<Rightarrow> 'k::linorder) \<Rightarrow> bool \<Rightarrow> 'a list \<Rightarrow> 'a list" where
  "py_sort k reverse xs = (if reverse then rev (sort_key k (rev xs)) else sort_key k xs)"

text \<open>
  With a NaN among the keys every comparison with it is false and the comparisons are no
  order. \<^verbatim>\<open>list.sort\<close> raises nothing then: it returns the rows it was given, in an
  order that its algorithm makes of the keys and of \<^verbatim>\<open>reverse\<close>. That order is a
  parameter of the development, as the list of the places the rows are taken from;
  \<open>rearrange\<close> follows it where it names every place once.
\<close>

type_synonym nan_sorter = "pyfloat list \<Rightarrow> bool \<Rightarrow> nat list"

definition rearrange :: "nat list \<Rightarrow> 'a list \<Rightarrow> 'a list" where
  "rearrange idx xs = (if sort idx = [0..<length xs] then map (\<lambda>i. xs ! i) idx else xs)"

text \<open>The sort of \<^verbatim>\<open>index\<close>.\<close>

definition sort_pairings ::
  "nan_sorter \<Rightarrow> string \<Rightarrow> string \<Rightarrow> pairing list \<Rightarrow> pyerr + pairing list" where
  "sort_pairings ns sort_by sort_order pairings =
     (let reverse = (sort_order = ''desc'') in
      if sort_by = ''medicine'' \<or> sort_by = ''insurance'' then
        Inr (py_sort (key_name sort_by) reverse pairings)
      else if list_ex (\<lambda>p. key_float sort_by p = NaN) pairings then
        Inr (rearrange (ns (map (key_float sort_by) pairings) reverse) pairings)
      else Inr (py_sort (\<lambda>p. ext_of (key_float sort_by p)) reverse pairings))"

subsection \<open>The POST branch of \<^verbatim>\<open>index\<close>\<close>

record summary =
  cur_medicine :: "pydict option"
  cur_insurance :: "pydict option"
  cur_coverage :: "pydict option"
  cur_annual_cost :: "pyfloat option"
  cur_monthly_cost :: pyfloat

record page =
  pg_selected_medicine :: "string option"
  pg_selected_insurance :: "string option"
  pg_current :: "summary option"
  pg_pairings :: "pairing list"
  pg_trial_question :: "string option"
  pg_trial_index :: int

text \<open>The top card of case 1, built when both records are found.\<close>

definition current_card ::
  "strfloat \<Rightarrow> comparator \<Rightarrow> string \<Rightarrow> string \<Rightarrow> pyerr + summary option" where
  "current_card s2f db med_name ins_name =
     (let med_info = get_medicine_info db med_name;
          ins_info = get_insurance_info db ins_name;
          cov_info = get_coverage_info db ins_name med_name
      in if dict_truthy med_info \<and> dict_truthy ins_info then
           bind_err (calculate_total_cost s2f med_info ins_info cov_info 12) (\<lambda>annual.
           bind_err (py_div12 annual) (\<lambda>monthly.
             Inr (Some \<lparr> cur_medicine = med_info, cur_insurance = ins_info,
                          cur_coverage = cov_info, cur_annual_cost = as_number annual,
                          cur_monthly_cost = monthly \<rparr>)))
         else Inr None)"

text \<open>
  Case 1, medicine and insurance both selected: what becomes of \<^verbatim>\<open>all_for_med\<close>
  before the sort (the selected combination is left out, the unauthorized prices are set,
  the tiers are flagged), and the case as a whole.
\<close>

definition other_options ::
  "comparator \<Rightarrow> string \<Rightarrow> string \<Rightarrow> bool \<Rightarrow> pairing list \<Rightarrow> pairing list" where
  "other_options db med_name ins_name tried_flag all_for_med =
     (let kept = filter (\<lambda>p. \<not> (medicine_name p = med_name \<and> insurance_name p = ins_name))
                   all_for_med;
          priced = map set_unauth kept
      in if tried_flag then flag_higher_tier db med_name priced else priced)"

definition results_selected ::
  "nan_sorter \<Rightarrow> strfloat \<Rightarrow> comparator \<Rightarrow> string \<Rightarrow> string \<Rightarrow> bool \<Rightarrow> string \<Rightarrow> string
     \<Rightarrow> pyerr + summary option \<times> pairing list" where
  "results_selected ns s2f db med_name ins_name tried_flag sort_by sort_order =
     bind_err (current_card s2f db med_name ins_name) (\<lambda>current.
     bind_err (build_pairings s2f db (Some med_name) None) (\<lambda>all_for_med.
     bind_err (sort_pairings ns sort_by sort_order
                 (other_options db med_name ins_name tried_flag all_for_med)) (\<lambda>sorted.
       Inr (current, sorted))))"

text \<open>
  Case 2, the broad query: what becomes of \<^verbatim>\<open>all_pairs\<close> before the sort (the cash
  row is inserted, the tiers are flagged, the unauthorized prices are set), and the case as
  a whole.
\<close>

definition broad_options ::
  "strfloat \<Rightarrow> comparator \<Rightarrow> string option \<Rightarrow> string option \<Rightarrow> bool \<Rightarrow> pairing list
     \<Rightarrow> pairing list" where
  "broad_options s2f db selected_medicine selected_insurance tried_flag all_pairs =
     (let with_cash = inject_cash s2f db selected_medicine selected_insurance all_pairs;
          flagged = (if tried_flag \<and> chosen selected_medicine
                     then flag_higher_tier db (name_of selected_medicine) with_cash
                     else with_cash)
      in map set_unauth flagged)"

definition results_broad ::
  "nan_sorter \<Rightarrow> strfloat \<Rightarrow> comparator \<Rightarrow> string option \<Rightarrow> string option \<Rightarrow> bool \<Rightarrow> string
     \<Rightarrow> string \<Rightarrow> bool \<Rightarrow> pyerr + summary option \<times> pairing list" where
  "results_broad ns s2f db selected_medicine selected_insurance tried_flag sort_by sort_order
       show_all_after_trial =
     bind_err (if show_all_after_trial then build_pairings s2f db None None
               else build_pairings s2f db selected_medicine selected_insurance) (\<lambda>all_pairs.
     bind_err (sort_pairings ns sort_by sort_order
                 (broad_options s2f db selected_medicine selected_insurance tried_flag all_pairs))
       (\<lambda>sorted. Inr (None, sorted)))"

text \<open>\<^verbatim>\<open>request.form.get("sort_by") or "annual"\<close> and
  \<^verbatim>\<open>request.form.get("order") or "asc"\<close>.\<close>

definition form_sort_by :: "form \<Rightarrow> string" where
  "form_sort_by fm = (case or_none (f_sort_by fm) of None \<Rightarrow> ''annual'' | Some v \<Rightarrow> v)"

definition form_order :: "form \<Rightarrow> string" where
  "form_order fm = (case or_none (f_order fm) of None \<Rightarrow> ''asc'' | Some v \<Rightarrow> v)"

definition index_post :: "nan_sorter \<Rightarrow> strfloat \<Rightarrow> comparator \<Rightarrow> form \<Rightarrow> pyerr + page" where
  "index_post ns s2f db fm =
     bind_err (trial_flow TRIAL_SEQUENCE fm) (\<lambda>t.
       (let selected_medicine =
              or_none (if chosen (t_selected t) then t_selected t else f_medicine fm);
            selected_insurance = or_none (f_insurance fm);
            tried_flag = (f_tried fm = Some ''on'');
            sort_by = form_sort_by fm;
            sort_order = form_order fm
        in bind_err
             (if t_skip t \<and> \<not> t_show_all t then Inr (None, [])
              else if chosen selected_medicine \<and> chosen selected_insurance then
                results_selected ns s2f db (name_of selected_medicine)
                  (name_of selected_insurance) tried_flag sort_by sort_order
              else
                results_broad ns s2f db selected_medicine selected_insurance tried_flag sort_by
                  sort_order (t_show_all t))
             (\<lambda>(current, pairings).
                Inr \<lparr> pg_selected_medicine = selected_medicine,
                       pg_selected_insurance = selected_insurance,
                       pg_current = current,
                       pg_pairings = pairings,
                       pg_trial_question = t_question t,
                       pg_trial_index = t_index t \<rparr>)))"

section \<open>The claims' readings of the cost resolver\<close>

text \<open>
  The amount a record holds under a key, in two readings. \<open>claimed_amount\<close> follows the
  specification's words: the number, and 0 when the field is missing or non-numeric, NaN
  included. \<open>amount_or_zero\<close> is the reading that the code meets: 0 when the field is
  absent, \<^verbatim>\<open>None\<close>, a string that is no number or an \<^verbatim>\<open>int\<close> beyond the
  floats, and a NaN kept as it is.
\<close>

fun claimed_amount :: "strfloat \<Rightarrow> pyval \<Rightarrow> pyfloat" where
  "claimed_amount s2f PNone = Fin 0"
| "claimed_amount s2f (PInt i) = float_of_int i"
| "claimed_amount s2f (PFloat NaN) = Fin 0"
| "claimed_amount s2f (PFloat f) = f"
| "claimed_amount s2f (PStr s) =
     (case s2f s of None \<Rightarrow> Fin 0 | Some NaN \<Rightarrow> Fin 0 | Some f \<Rightarrow> f)"

fun amount_or_zero :: "strfloat \<Rightarrow> pyval \<Rightarrow> pyfloat" where
  "amount_or_zero s2f PNone = Fin 0"
| "amount_or_zero s2f (PInt i) = (if fits_float i then float_of_int i else Fin 0)"
| "amount_or_zero s2f (PFloat f) = f"
| "amount_or_zero s2f (PStr s) = (case s2f s of None \<Rightarrow> Fin 0 | Some f \<Rightarrow> f)"

text \<open>The amount under key \<open>k\<close> of a record that may be absent.\<close>

definition record_amount ::
  "(strfloat \<Rightarrow> pyval \<Rightarrow> pyfloat) \<Rightarrow> strfloat \<Rightarrow> pydict option \<Rightarrow> string \<Rightarrow> pyfloat" where
  "record_amount amt s2f r k = (case r of None \<Rightarrow> Fin 0 | Some d \<Rightarrow> amt s2f (dget d k))"

text \<open>A configured numeric price: present, not \<^verbatim>\<open>None\<close>, not NaN; and a value
  that \<^verbatim>\<open>float\<close> can hold, which every value but an \<^verbatim>\<open>int\<close> beyond the floats
  is.\<close>

fun float_holds :: "pyval \<Rightarrow> bool" where
  "float_holds (PInt i) = fits_float i"
| "float_holds _ = True"

fun numeric_value :: "pyval \<Rightarrow> pyfloat option" where
  "numeric_value (PInt i) = Some (float_of_int i)"
| "numeric_value (PFloat NaN) = None"
| "numeric_value (PFloat f) = Some f"
| "numeric_value _ = None"

text \<open>
  \<^verbatim>\<open>a == b\<close> on floats: NaN equals nothing, itself included. The claimed invariant
  \<^verbatim>\<open>monthly_cost == annual_cost / 12\<close> of a pairing and of the summary of the current
  selection, read with it.
\<close>

definition float_eq :: "pyfloat \<Rightarrow> pyfloat \<Rightarrow> bool" where
  "float_eq a b = (a \<noteq> NaN \<and> b \<noteq> NaN \<and> a = b)"

definition monthly_equals :: "pyfloat option \<Rightarrow> pyfloat option \<Rightarrow> bool" where
  "monthly_equals monthly annual =
     (case monthly of
        None \<Rightarrow> False
      | Some m \<Rightarrow> (case annual of None \<Rightarrow> False | Some a \<Rightarrow> float_eq m (fdiv12 a)))"

text \<open>
  What the code keeps: a pairing has an annual cost, and its monthly cost is the quotient
  of that by 12, NaN when the annual cost is NaN. The same for the summary.
\<close>

definition monthly_from_annual :: "pairing \<Rightarrow> bool" where
  "monthly_from_annual p =
     (annual_cost p \<noteq> None \<and> monthly_cost p = map_option fdiv12 (annual_cost p))"

definition card_ok :: "summary \<Rightarrow> bool" where
  "card_ok c =
     (cur_annual_cost c \<noteq> None \<and> Some (cur_monthly_cost c) = map_option fdiv12 (cur_annual_cost c))"

section \<open>Example records\<close>

text \<open>A \<^verbatim>\<open>float\<close> of strings that accepts none, for the examples (no example holds a
  number as a string).\<close>

definition no_float :: strfloat where
  "no_float s = None"

definition ex_metformin :: pydict where
  "ex_metformin = [(''medicine_name'', PStr ''Metformin''),
     (''average_cost_per_month'', PFloat (Fin 4)), (''goodrx_price'', PFloat NaN)]"

definition ex_glipizide :: pydict where
  "ex_glipizide = [(''medicine_name'', PStr ''Glipizide''),
     (''average_cost_per_month'', PInt 9), (''goodrx_price'', PFloat (Fin 25))]"

definition ex_nan_cost :: pydict where
  "ex_nan_cost = [(''medicine_name'', PStr ''Januvia''),
     (''average_cost_per_month'', PFloat NaN), (''goodrx_price'', PFloat NaN)]"


definition ex_cigna :: pydict where
  "ex_cigna = [(''insurance_name'', PStr ''Cigna''), (''deductible'', PInt 100),
     (''coverage_percentage'', PInt 80)]"

definition ex_yes_10 :: pydict where
  "ex_yes_10 = [(''covered'', PStr ''Yes''), (''copay_amount'', PInt 10),
     (''tier_level'', PStr ''Tier 1'')]"

definition ex_yes_nan :: pydict where
  "ex_yes_nan = [(''covered'', PStr ''Yes''), (''copay_amount'', PFloat NaN)]"

definition ex_no :: pydict where
  "ex_no = [(''covered'', PStr ''No''), (''copay_amount'', PFloat NaN),
     (''tier_level'', PStr ''Tier 3'')]"

definition ex_zero :: pydict where
  "ex_zero = [(''medicine_name'', PStr ''Zerocost''),
     (''average_cost_per_month'', PFloat (Fin 7)), (''goodrx_price'', PFloat (Fin 0))]"

definition ex_huge :: pydict where
  "ex_huge = [(''medicine_name'', PStr ''Hugecost''),
     (''average_cost_per_month'', PInt 9), (''goodrx_price'', PInt (2 ^ 1024))]"

definition ex_aetna :: pydict where
  "ex_aetna = [(''insurance_name'', PStr ''Aetna''), (''deductible'', PInt 50)]"

definition ex_yes_5 :: pydict where
  "ex_yes_5 = [(''covered'', PStr ''Yes''), (''copay_amount'', PInt 5),
     (''tier_level'', PStr ''Tier 2'')]"

definition ex_db :: comparator where
  "ex_db = \<lparr> medicines_df = [(''Metformin'', ex_metformin), (''Glipizide'', ex_glipizide),
                              (''Zerocost'', ex_zero)],
             insurance_df = [(''Cigna'', ex_cigna), (''Aetna'', ex_aetna)],
             coverage_df = [((''Cigna'', ''Metformin''), ex_yes_10),
                            ((''Cigna'', ''Glipizide''), ex_no),
                            ((''Aetna'', ''Glipizide''), ex_yes_5)] \<rparr>"

text \<open>The same tables with one medicine whose average monthly cost is NaN.\<close>

definition ex_db_nan :: comparator where
  "ex_db_nan = ex_db \<lparr> medicines_df := [(''Januvia'', ex_nan_cost)] \<rparr>"

text \<open>A sorter for the examples: with a NaN key it leaves the rows as they are.\<close>

definition keep_order :: nan_sorter where
  "keep_order keys reverse = [0..<length keys]"

definition ex_form :: form where
  "ex_form = \<lparr> f_trial_action = None, f_trial_answer = None, f_trial_index = None,
               f_medicine = None, f_insurance = None, f_tried = None, f_sort_by = None,
               f_order = None \<rparr>"

definition ex_form_both :: form where
  "ex_form_both = ex_form \<lparr> f_medicine := Some ''Glipizide'', f_insurance := Some ''Cigna'' \<rparr>"

definition ex_form_tried :: form where
  "ex_form_tried = ex_form \<lparr> f_trial_action := Some ''trial'', f_trial_answer := Some ''Yes'',
     f_trial_index := Some ''6'', f_medicine := Some ''Metformin'', f_tried := Some ''on'' \<rparr>"


text \<open>A covered rule whose \<^verbatim>\<open>covered\<close> cell is \<^verbatim>\<open>'YES'\<close> between a no-break space
  and a blank.\<close>

definition ex_yes_nbsp :: pydict where
  "ex_yes_nbsp = [(''covered'', PStr (CHR 0xA0 # ''YES '')), (''copay_amount'', PInt 10)]"

section \<open>Properties of the cost resolver\<close>

lemmas str_simps = py_lower_def py_strip_def is_space_def lower_char_def

lemma float_or_zero_amount: "float_or_zero s2f v = amount_or_zero s2f v"
  by (cases v) (simp_all add: float_or_zero_def int_to_float_def split: option.splits)

lemma dget_Nil: "dget [] k = PNone"
  by (simp add: dget_def)

lemma bind_err_Inr:
  "bind_err x f = Inr y \<longleftrightarrow> (\<exists>a. x = Inr a \<and> f a = Inr y)"
  by (cases x) (simp_all add: bind_err_def)

lemma fits_float_12: "fits_float 12"
  by (simp add: fits_float_def)

lemma fmul_int_12: "fmul_int f 12 = Inr (fmul f (Fin 12))"
  by (simp add: fmul_int_def fits_float_12 float_of_int_def)

text \<open>
  C1, as stated, at a covered rule whose copay is NaN (a blank or non-numeric cell after
  \<^verbatim>\<open>pd.to_numeric(errors='coerce')\<close>): the resolver returns NaN, where the claim's
  reading gives 0 * 12 + 100 = 100.
\<close>

theorem covered_cost_nan_counterexample:
  "calculate_total_cost no_float (Some ex_metformin) (Some ex_cigna) (Some ex_yes_nan) 12
     = Inr (PFloat NaN)
   \<and> fadd (record_amount claimed_amount no_float (Some ex_cigna) ''deductible'')
        (fmul (record_amount claimed_amount no_float (Some ex_yes_nan) ''copay_amount'')
           (float_of_int 12)) = Fin 100"
  by (simp add: calculate_total_cost_def covered_flag_def dget_def str_simps float_or_zero_def
      float_of_int_def record_amount_def ex_yes_nan_def ex_cigna_def fmul_int_12 bind_err_def
      int_to_float_def fits_float_def)

text \<open>
  C1 (amended): for every medicine record, insurance record (possibly absent) and coverage
  record whose \<^verbatim>\<open>covered\<close> field, trimmed and lowercased, is \<^verbatim>\<open>yes\<close>,
  \<^verbatim>\<open>calculate_total_cost\<close> returns deductible + copay_amount * months in float
  arithmetic, for every number of months that a float can hold (beyond that the product
  raises \<^verbatim>\<open>OverflowError\<close>). The copay is taken as 0 when it is absent,
  \<^verbatim>\<open>None\<close>, a string that is no number or an \<^verbatim>\<open>int\<close> beyond the floats, the
  deductible as 0 in the same cases and when the insurance is absent; a NaN copay or
  deductible is kept, so the result is then NaN. Nothing else of the medicine or of the
  insurance (coverage percentage, per-visit copays) enters the result.
\<close>

theorem covered_cost:
  assumes "covered_yes (dget cov ''covered'')"
  shows "calculate_total_cost s2f med ins (Some cov) months =
           (if fits_float months then
              Inr (PFloat (fadd (record_amount amount_or_zero s2f ins ''deductible'')
                     (fmul (record_amount amount_or_zero s2f (Some cov) ''copay_amount'')
                        (float_of_int months))))
            else Inl OverflowError)"
proof -
  have ded: "(case ins of None \<Rightarrow> Fin 0
              | Some i \<Rightarrow> if i \<noteq> [] \<and> dget i ''deductible'' \<noteq> PNone
                          then float_or_zero s2f (dget i ''deductible'') else Fin 0)
             = record_amount amount_or_zero s2f ins ''deductible''"
    by (auto simp: record_amount_def float_or_zero_amount dget_Nil split: option.splits)
  show ?thesis
    using assms by (simp add: calculate_total_cost_def covered_flag_def ded Let_def
        float_or_zero_amount record_amount_def fmul_int_def bind_err_def)
qed

text \<open>The specification's example: copay 10, deductible 100, twelve months, 220. The same
  with \<^verbatim>\<open>'YES'\<close> between a no-break space and a blank, and no insurance: 120.\<close>

theorem covered_cost_witness:
  "covered_yes (dget ex_yes_10 ''covered'')
   \<and> calculate_total_cost no_float (Some ex_metformin) (Some ex_cigna) (Some ex_yes_10) 12
       = Inr (PFloat (Fin 220))
   \<and> covered_yes (dget ex_yes_nbsp ''covered'')
   \<and> calculate_total_cost no_float (Some ex_metformin) None (Some ex_yes_nbsp) 12
       = Inr (PFloat (Fin 120))"
proof -
  have h: "covered_yes (dget ex_yes_10 ''covered'')"
    by (simp add: ex_yes_10_def dget_def str_simps)
  have h': "covered_yes (dget ex_yes_nbsp ''covered'')"
    by (simp add: ex_yes_nbsp_def dget_def str_simps)
  have a: "calculate_total_cost no_float (Some ex_metformin) (Some ex_cigna) (Some ex_yes_10) 12
       = Inr (PFloat (Fin 220))"
    using covered_cost [OF h, of no_float "Some ex_metformin" "Some ex_cigna" 12]
    by (simp add: record_amount_def dget_def ex_yes_10_def ex_cigna_def float_of_int_def
        fits_float_def)
  have b: "calculate_total_cost no_float (Some ex_metformin) None (Some ex_yes_nbsp) 12
       = Inr (PFloat (Fin 120))"
    using covered_cost [OF h', of no_float "Some ex_metformin" None 12]
    by (simp add: record_amount_def dget_def ex_yes_nbsp_def float_of_int_def fits_float_def)
  show ?thesis
    using h h' a b by simp
qed






lemma numeric_value_Some:
  "numeric_value v = Some p \<Longrightarrow> float_holds v \<Longrightarrow>
     py_float s2f v = Inr p \<and> v \<noteq> PNone \<and> \<not> pd_isna v"
  by (induction v rule: numeric_value.induct) (auto simp: int_to_float_def)

lemma calculate_cash:
  assumes "numeric_value (dget m ''goodrx_price'') = Some p"
    and "float_holds (dget m ''goodrx_price'')" and "\<not> covered_flag cov"
  shows "calculate_total_cost s2f (Some m) None cov months
           = (if fits_float months then Inr (PFloat (fmul p (float_of_int months)))
              else py_mul_int (dget_default m ''average_cost_per_month'' (PInt 0)) months)"
  using numeric_value_Some [OF assms(1,2), of s2f] assms(3)
  by (simp add: calculate_total_cost_def goodrx_return_def bind_err_def fmul_int_def)

text \<open>
  C3, as stated, at a cash price that is the \<^verbatim>\<open>int\<close> 2^1024 (present, not
  \<^verbatim>\<open>None\<close>, not NaN), with no insurance and no coverage rule: \<^verbatim>\<open>float\<close> raises
  \<^verbatim>\<open>OverflowError\<close> on it inside the \<^verbatim>\<open>try\<close>, and the resolver returns the
  average monthly cost of 9 times 12, not the cash price times 12.
\<close>

theorem cash_cost_huge_counterexample:
  "numeric_value (dget ex_huge ''goodrx_price'') = Some (float_of_int (2 ^ 1024))
   \<and> calculate_total_cost no_float (Some ex_huge) None None 12 = Inr (PInt 108)"
  by (simp add: calculate_total_cost_def covered_flag_def goodrx_return_def dget_def
      dget_default_def ex_huge_def int_to_float_def fits_float_def bind_err_def)

text \<open>
  C3 (amended): for a medicine whose \<^verbatim>\<open>goodrx_price\<close> is a number that a float can
  hold (present, not \<^verbatim>\<open>None\<close>, not NaN), with no insurance supplied and the covered
  flag false, \<^verbatim>\<open>calculate_total_cost\<close> returns goodrx_price * months when a float can
  hold months too, and otherwise what the fallback on the average monthly cost gives; with
  no coverage rule and twelve months it returns goodrx_price * 12.
\<close>

theorem cash_cost:
  assumes "numeric_value (dget m ''goodrx_price'') = Some p"
    and "float_holds (dget m ''goodrx_price'')"
    and "\<not> covered_flag cov"
  shows "calculate_total_cost s2f (Some m) None cov months
           = (if fits_float months then Inr (PFloat (fmul p (float_of_int months)))
              else py_mul_int (dget_default m ''average_cost_per_month'' (PInt 0)) months)
       \<and> calculate_total_cost s2f (Some m) None None 12 = Inr (PFloat (fmul p (Fin 12)))"
proof -
  have n: "\<not> covered_flag None"
    by (simp add: covered_flag_def)
  show ?thesis
    using calculate_cash [OF assms, of s2f months] calculate_cash [OF assms(1,2) n, of s2f 12]
    by (simp add: fits_float_12 float_of_int_def)
qed

theorem cash_cost_witness:
  "numeric_value (dget ex_glipizide ''goodrx_price'') = Some (Fin 25)
   \<and> float_holds (dget ex_glipizide ''goodrx_price'')
   \<and> \<not> covered_flag (Some ex_no)
   \<and> calculate_total_cost no_float (Some ex_glipizide) None (Some ex_no) 6
       = Inr (PFloat (Fin 150))
   \<and> calculate_total_cost no_float (Some ex_glipizide) None None 12 = Inr (PFloat (Fin 300))"
proof -
  have h1: "numeric_value (dget ex_glipizide ''goodrx_price'') = Some (Fin 25)"
    and h2: "float_holds (dget ex_glipizide ''goodrx_price'')"
    by (simp_all add: ex_glipizide_def dget_def)
  have h3: "\<not> covered_flag (Some ex_no)"
    by (simp add: covered_flag_def ex_no_def dget_def str_simps)
  show ?thesis
    using h1 h2 h3 cash_cost [OF h1 h2 h3, of no_float 6]
    by (simp add: float_of_int_def fits_float_def)
qed

section \<open>Properties of the pairing builder and of the request handler\<close>

lemma collect_Inr:
  "collect f xs = Inr ys \<Longrightarrow> y \<in> set ys \<Longrightarrow> \<exists>x \<in> set xs. f x = Inr y"
proof (induction xs arbitrary: ys)
  case Nil
  then show ?case by simp
next
  case (Cons x xs)
  from Cons.prems(1) obtain z zs where z: "f x = Inr z" and zs: "collect f xs = Inr zs"
    and ys: "ys = z # zs"
    by (auto simp: bind_err_Inr)
  show ?case
  proof (cases "y = z")
    case True
    then show ?thesis using z by auto
  next
    case False
    then have "y \<in> set zs" using Cons.prems(2) ys by simp
    then show ?thesis using Cons.IH [OF zs] by auto
  qed
qed

lemma py_div12_Inr:
  "py_div12 v = Inr m \<Longrightarrow> \<exists>a. as_number v = Some a \<and> m = fdiv12 a"
  by (cases v) (auto simp: float_of_int_def split: if_splits)

lemma add_pair_fields:
  assumes "add_pair s2f db si m i = Inr p"
  shows "monthly_from_annual p" "\<not> is_cash p" "medicine_name p = m" "insurance_name p = i"
    "coverage p = get_coverage_info db i m" "goodrx_price p = goodrx_of s2f (get_medicine_info db m)"
    "goodrx_eligible p = (goodrx_of s2f (get_medicine_info db m) \<noteq> None)"
  using assms
  by (auto simp: add_pair_def Let_def bind_err_Inr monthly_from_annual_def dest!: py_div12_Inr)

lemma build_pairings_rows:
  assumes "build_pairings s2f db sm si = Inr ps" "p \<in> set ps"
  shows "\<exists>m i. add_pair s2f db si m i = Inr p"
  using assms
  apply (auto simp: build_pairings_def Let_def bind_err_Inr split: if_splits dest!: collect_Inr)
  by blast+

lemma cash_row_fields:
  assumes "cash_row s2f db m = Some p"
  shows "monthly_from_annual p" "is_cash p" "medicine_name p = m" "coverage p = None"
    "insurance p = None" "insurance_name p = ''GoodRx (CVS - DC)''"
  using assms
  by (auto simp: cash_row_def Let_def monthly_from_annual_def
      split: option.splits if_splits sum.splits dest!: py_div12_Inr)

lemma set_inject_cash:
  "p \<in> set (inject_cash s2f db sm si ps) \<Longrightarrow> p \<in> set ps \<or> cash_row s2f db (name_of sm) = Some p"
  by (auto simp: inject_cash_def split: if_splits option.splits)

lemma set_py_sort: "set (py_sort k r xs) = set xs"
  by (simp add: py_sort_def)

lemma set_rearrange: "set (rearrange idx xs) = set xs"
proof (cases "sort idx = [0..<length xs]")
  case True
  have "set idx = set (sort idx)" by simp
  also have "\<dots> = {0..<length xs}" by (simp only: True set_upt)
  finally have "(\<lambda>i. xs ! i) ` set idx = set xs"
    by (auto simp: set_conv_nth)
  then show ?thesis using True by (simp add: rearrange_def)
next
  case False
  then show ?thesis by (simp add: rearrange_def)
qed

lemma length_rearrange: "length (rearrange idx xs) = length xs"
proof (cases "sort idx = [0..<length xs]")
  case True
  have "length idx = length (sort idx)" by simp
  also have "\<dots> = length xs" by (simp add: True)
  finally show ?thesis using True by (simp add: rearrange_def)
next
  case False
  then show ?thesis by (simp add: rearrange_def)
qed

lemma sort_pairings_set: "sort_pairings ns sb so ps = Inr ys \<Longrightarrow> set ys = set ps"
  by (auto simp: sort_pairings_def Let_def set_py_sort set_rearrange split: if_splits)

lemma sort_pairings_length: "sort_pairings ns sb so ps = Inr ys \<Longrightarrow> length ys = length ps"
  by (auto simp: sort_pairings_def Let_def py_sort_def length_rearrange split: if_splits)

lemma sort_pairings_total: "\<exists>ys. sort_pairings ns sb so ps = Inr ys"
  by (simp add: sort_pairings_def Let_def)

lemma set_unauth_fields:
  "monthly_from_annual (set_unauth p) = monthly_from_annual p"
  "coverage (set_unauth p) = coverage p" "insurance_name (set_unauth p) = insurance_name p"
  "is_higher_tier (set_unauth p) = is_higher_tier p" "is_cash (set_unauth p) = is_cash p"
  by (simp_all add: set_unauth_def monthly_from_annual_def)

lemma flag_fields:
  assumes "q \<in> set (flag_higher_tier db m ps)"
  shows "\<exists>p \<in> set ps. monthly_from_annual q = monthly_from_annual p \<and> coverage q = coverage p
          \<and> insurance_name q = insurance_name p \<and> is_cash q = is_cash p
          \<and> is_higher_tier q = Some (higher_tier db m p)"
proof -
  from assms obtain p where p: "p \<in> set ps" and q: "q = p \<lparr> is_higher_tier := Some (higher_tier db m p) \<rparr>"
    by (auto simp: flag_higher_tier_def)
  have "monthly_from_annual q = monthly_from_annual p \<and> coverage q = coverage p
          \<and> insurance_name q = insurance_name p \<and> is_cash q = is_cash p
          \<and> is_higher_tier q = Some (higher_tier db m p)"
    by (simp add: q monthly_from_annual_def)
  with p show ?thesis by blast
qed

lemma current_card_ok:
  "current_card s2f db m i = Inr (Some c) \<Longrightarrow> card_ok c"
  by (auto simp: current_card_def Let_def bind_err_Inr card_ok_def split: if_splits
      dest!: py_div12_Inr)

lemma build_pairings_inv:
  assumes "build_pairings s2f db sm si = Inr ps" "p \<in> set ps"
  shows "monthly_from_annual p"
  using build_pairings_rows [OF assms] add_pair_fields(1) by blast

lemma other_options_inv:
  assumes "\<forall>p \<in> set rows. monthly_from_annual p" "q \<in> set (other_options db m i tried rows)"
  shows "monthly_from_annual q"
proof -
  have base: "\<forall>p \<in> set (map set_unauth (filter (\<lambda>p. \<not> (medicine_name p = m \<and> insurance_name p = i)) rows)).
      monthly_from_annual p"
    using assms(1) by (auto simp: set_unauth_fields)
  show ?thesis
    using assms(2) base
    by (auto simp: other_options_def Let_def split: if_splits dest!: flag_fields)
qed

lemma broad_options_inv:
  assumes "\<forall>p \<in> set rows. monthly_from_annual p" "q \<in> set (broad_options s2f db sm si tried rows)"
  shows "monthly_from_annual q"
proof -
  have c: "\<forall>p \<in> set (inject_cash s2f db sm si rows). monthly_from_annual p"
    using assms(1) cash_row_fields(1) by (auto dest!: set_inject_cash)
  from assms(2) obtain r where r: "r \<in> set (if tried \<and> chosen sm
        then flag_higher_tier db (name_of sm) (inject_cash s2f db sm si rows)
        else inject_cash s2f db sm si rows)" and q: "q = set_unauth r"
    by (auto simp: broad_options_def Let_def)
  have "monthly_from_annual r"
    using r c by (auto split: if_splits dest!: flag_fields)
  then show ?thesis by (simp add: q set_unauth_fields)
qed

lemma results_selected_Inr:
  assumes "results_selected ns s2f db m i tried sb so = Inr (cur, ps)"
  obtains rows where "current_card s2f db m i = Inr cur"
    and "build_pairings s2f db (Some m) None = Inr rows"
    and "sort_pairings ns sb so (other_options db m i tried rows) = Inr ps"
  using assms unfolding results_selected_def bind_err_Inr by auto

lemma results_broad_Inr:
  assumes "results_broad ns s2f db sm si tried sb so sa = Inr (cur, ps)"
  obtains rows where
    "(if sa then build_pairings s2f db None None else build_pairings s2f db sm si) = Inr rows"
    and "sort_pairings ns sb so (broad_options s2f db sm si tried rows) = Inr ps"
    and "cur = None"
  using assms unfolding results_broad_def bind_err_Inr by auto

lemma results_selected_inv:
  assumes "results_selected ns s2f db m i tried sb so = Inr (cur, ps)"
  shows "(\<forall>p \<in> set ps. monthly_from_annual p) \<and> (\<forall>c. cur = Some c \<longrightarrow> card_ok c)"
proof -
  from assms obtain rows where
    cur: "current_card s2f db m i = Inr cur" and
    rows: "build_pairings s2f db (Some m) None = Inr rows" and
    sorted: "sort_pairings ns sb so (other_options db m i tried rows) = Inr ps"
    by (rule results_selected_Inr)
  have "\<forall>p \<in> set rows. monthly_from_annual p"
    using build_pairings_inv [OF rows] by blast
  then have "\<forall>p \<in> set ps. monthly_from_annual p"
    using sort_pairings_set [OF sorted] other_options_inv by blast
  then show ?thesis using cur current_card_ok by blast
qed

lemma results_broad_inv:
  assumes "results_broad ns s2f db sm si tried sb so sa = Inr (cur, ps)"
  shows "(\<forall>p \<in> set ps. monthly_from_annual p) \<and> cur = None"
proof -
  from assms obtain rows where
    rows: "(if sa then build_pairings s2f db None None else build_pairings s2f db sm si) = Inr rows"
    and sorted: "sort_pairings ns sb so (broad_options s2f db sm si tried rows) = Inr ps"
    and cur: "cur = None"
    by (rule results_broad_Inr)
  have "\<forall>p \<in> set rows. monthly_from_annual p"
    using rows build_pairings_inv by (auto split: if_splits)
  then have "\<forall>p \<in> set ps. monthly_from_annual p"
    using sort_pairings_set [OF sorted] broad_options_inv by blast
  then show ?thesis using cur by simp
qed

lemma index_post_cases:
  assumes "index_post ns s2f db fm = Inr pg"
  shows "(pg_pairings pg = [] \<and> pg_current pg = None)
       \<or> (\<exists>m i tried sb so. results_selected ns s2f db m i tried sb so = Inr (pg_current pg, pg_pairings pg))
       \<or> (\<exists>sm si tried sb so sa. results_broad ns s2f db sm si tried sb so sa = Inr (pg_current pg, pg_pairings pg))"
  using assms
  by (auto simp: index_post_def Let_def bind_err_Inr split: if_splits prod.splits)

lemma index_post_inv:
  assumes "index_post ns s2f db fm = Inr pg"
  shows "(\<forall>p \<in> set (pg_pairings pg). monthly_from_annual p)
       \<and> (\<forall>c. pg_current pg = Some c \<longrightarrow> card_ok c)"
  using index_post_cases [OF assms] results_selected_inv results_broad_inv by fastforce

lemma monthly_equals_iff:
  "monthly_from_annual p \<Longrightarrow>
     monthly_equals (monthly_cost p) (annual_cost p) = (annual_cost p \<noteq> Some NaN)"
  by (cases "annual_cost p"; cases "the (annual_cost p)")
    (auto simp: monthly_from_annual_def monthly_equals_def float_eq_def)

lemma card_equals_iff:
  "card_ok c \<Longrightarrow>
     monthly_equals (Some (cur_monthly_cost c)) (cur_annual_cost c) = (cur_annual_cost c \<noteq> Some NaN)"
  by (cases "cur_annual_cost c"; cases "the (cur_annual_cost c)")
    (auto simp: card_ok_def monthly_equals_def float_eq_def)

lemmas eval_defs = index_post_def form_sort_by_def form_order_def results_selected_def results_broad_def other_options_def
  broad_options_def current_card_def
  sort_pairings_def py_sort_def key_float_def key_name_def set_unauth_def flag_higher_tier_def
  higher_tier_def inject_cash_def cash_row_def trial_flow_def trial_start_def form_trial_index_def
  py_index_def or_none_def chosen_def name_of_def dict_truthy_def build_pairings_def add_pair_def
  copay_of_def goodrx_of_def average_monthly_def bind_err_def get_medicine_info_def
  get_insurance_info_def get_coverage_info_def calculate_total_cost_def goodrx_return_def
  covered_flag_def float_or_zero_def float_of_int_def int_to_float_def fmul_int_def
  fits_float_def dget_def dget_default_def has_key_def
  tier_num_def tier_level_of_def py_int_str_def digit_val_def fsub_def inf_of_sign_def
  UNAUTHORIZED_COSTS_def TRIAL_SEQUENCE_def less_eq_ext_def less_ext_def

lemmas ex_defs = ex_db_def ex_form_def ex_metformin_def ex_glipizide_def ex_zero_def ex_cigna_def
  ex_aetna_def ex_yes_10_def ex_yes_5_def ex_no_def no_float_def

text \<open>
  C4, as stated, at a medicine whose average monthly cost is NaN (a blank or non-numeric
  cell after \<^verbatim>\<open>pd.to_numeric(errors='coerce')\<close>), which no plan covers: the rows that
  \<^verbatim>\<open>build_pairings\<close> returns have the annual cost NaN and the monthly cost NaN, and
  \<^verbatim>\<open>monthly_cost == annual_cost / 12\<close> is false of them, as NaN equals nothing.
\<close>

theorem monthly_cost_nan_counterexample:
  "map_sum id
     (map (\<lambda>p. (annual_cost p, monthly_cost p, monthly_equals (monthly_cost p) (annual_cost p))))
     (build_pairings no_float ex_db_nan (Some ''Januvia'') None)
     = Inr [(Some NaN, Some NaN, False), (Some NaN, Some NaN, False)]"
  by (simp add: eval_defs ex_defs ex_db_nan_def ex_nan_cost_def monthly_equals_def float_eq_def
      str_simps Let_def)

text \<open>
  C4 (amended): every pairing that \<^verbatim>\<open>build_pairings\<close> returns, every pairing that
  \<^verbatim>\<open>index\<close> hands to the template (the rows of \<^verbatim>\<open>build_pairings\<close> and the
  inserted cash row) and the summary of the current selection have an annual cost, and
  their monthly cost is the quotient of that by 12: \<^verbatim>\<open>monthly_cost == annual_cost / 12\<close>
  holds exactly when the annual cost is not NaN, and the monthly cost is NaN when it is.
\<close>

theorem monthly_cost_invariant:
  "(build_pairings s2f db sm si = Inr ps \<longrightarrow>
      (\<forall>p \<in> set ps. monthly_from_annual p
         \<and> monthly_equals (monthly_cost p) (annual_cost p) = (annual_cost p \<noteq> Some NaN)))
   \<and> (index_post ns s2f db fm = Inr pg \<longrightarrow>
        (\<forall>p \<in> set (pg_pairings pg). monthly_from_annual p
           \<and> monthly_equals (monthly_cost p) (annual_cost p) = (annual_cost p \<noteq> Some NaN))
        \<and> (\<forall>c. pg_current pg = Some c \<longrightarrow> card_ok c
              \<and> monthly_equals (Some (cur_monthly_cost c)) (cur_annual_cost c)
                  = (cur_annual_cost c \<noteq> Some NaN)))"
proof (intro conjI impI)
  assume "build_pairings s2f db sm si = Inr ps"
  then show "\<forall>p \<in> set ps. monthly_from_annual p
         \<and> monthly_equals (monthly_cost p) (annual_cost p) = (annual_cost p \<noteq> Some NaN)"
    using build_pairings_inv monthly_equals_iff by blast
next
  assume a: "index_post ns s2f db fm = Inr pg"
  show "\<forall>p \<in> set (pg_pairings pg). monthly_from_annual p
           \<and> monthly_equals (monthly_cost p) (annual_cost p) = (annual_cost p \<noteq> Some NaN)"
    using index_post_inv [OF a] monthly_equals_iff by blast
next
  assume a: "index_post ns s2f db fm = Inr pg"
  show "\<forall>c. pg_current pg = Some c \<longrightarrow> card_ok c
              \<and> monthly_equals (Some (cur_monthly_cost c)) (cur_annual_cost c)
                  = (cur_annual_cost c \<noteq> Some NaN)"
    using index_post_inv [OF a] card_equals_iff by blast
qed

text \<open>Glipizide against every plan, and Glipizide under Cigna as the current selection.\<close>

theorem monthly_cost_invariant_witness:
  "\<exists>ps pg. build_pairings no_float ex_db (Some ''Glipizide'') None = Inr ps
     \<and> map monthly_cost ps = [Some (Fin 9), Some (Fin (55 / 6))]
     \<and> list_all monthly_from_annual ps
     \<and> list_all (\<lambda>p. monthly_equals (monthly_cost p) (annual_cost p)) ps
     \<and> index_post keep_order no_float ex_db ex_form_both = Inr pg
     \<and> map annual_cost (pg_pairings pg) = [Some (Fin 110)]
     \<and> list_all monthly_from_annual (pg_pairings pg)
     \<and> map_option cur_annual_cost (pg_current pg) = Some (Some (Fin 108))
     \<and> list_all card_ok (case pg_current pg of None \<Rightarrow> [] | Some c \<Rightarrow> [c])"
proof -
  obtain ps where ps: "build_pairings no_float ex_db (Some ''Glipizide'') None = Inr ps"
    and mc: "map monthly_cost ps = [Some (Fin 9), Some (Fin (55 / 6))]"
    and ac: "map annual_cost ps = [Some (Fin 108), Some (Fin 110)]"
    by (simp add: eval_defs ex_defs str_simps Let_def)
  obtain pg where pg: "index_post keep_order no_float ex_db ex_form_both = Inr pg"
    and ac: "map annual_cost (pg_pairings pg) = [Some (Fin 110)]"
    and cur: "map_option cur_annual_cost (pg_current pg) = Some (Some (Fin 108))"
    by (simp add: eval_defs ex_defs ex_form_both_def str_simps Let_def)
  have inv: "(\<forall>p \<in> set ps. monthly_from_annual p
         \<and> monthly_equals (monthly_cost p) (annual_cost p) = (annual_cost p \<noteq> Some NaN))
      \<and> (\<forall>p \<in> set (pg_pairings pg). monthly_from_annual p)
      \<and> (\<forall>c. pg_current pg = Some c \<longrightarrow> card_ok c)"
    using monthly_cost_invariant [of no_float ex_db "Some ''Glipizide''" None ps keep_order
        ex_form_both pg] ps pg by simp
  have nn: "\<forall>p \<in> set ps. annual_cost p \<noteq> Some NaN"
  proof
    fix p assume "p \<in> set ps"
    then have "annual_cost p \<in> set (map annual_cost ps)" by simp
    then show "annual_cost p \<noteq> Some NaN" unfolding \<open>map annual_cost ps = _\<close> by auto
  qed
  have eq: "list_all (\<lambda>p. monthly_equals (monthly_cost p) (annual_cost p)) ps"
    using inv nn by (simp add: list_all_iff)
  have "list_all card_ok (case pg_current pg of None \<Rightarrow> [] | Some c \<Rightarrow> [c])"
    using inv by (cases "pg_current pg") simp_all
  then show ?thesis
    using ps mc pg ac cur inv eq by (auto simp: list_all_iff)
qed

text \<open>
  C9 at a medicine name that no row has, with no insurance selected: the lookup returns
  \<^verbatim>\<open>None\<close>, the fallback of \<^verbatim>\<open>calculate_total_cost\<close> calls
  \<^verbatim>\<open>medicine_info.get\<close> on it outside any \<^verbatim>\<open>try\<close>, and the
  \<^verbatim>\<open>AttributeError\<close> leaves \<^verbatim>\<open>build_pairings\<close>. An insurance name that
  no row has raises nothing: each medicine gets a row.
\<close>

theorem build_pairings_unknown_medicine:
  "get_medicine_info ex_db ''Unknown'' = None
   \<and> build_pairings no_float ex_db (Some ''Unknown'') None = Inl AttributeError
   \<and> get_insurance_info ex_db ''Unknown'' = None
   \<and> map_sum id (map annual_cost) (build_pairings no_float ex_db None (Some ''Unknown''))
       = Inr [Some (Fin 48), Some (Fin 300), Some (Fin 0)]"
  by (simp add: eval_defs ex_defs str_simps Let_def)

subsection \<open>The cash row\<close>

lemma numeric_value_dict:
  "numeric_value (dget m k) = Some g \<Longrightarrow> m \<noteq> []"
  by (auto simp: dget_def)

lemma cash_row_numeric:
  assumes m: "get_medicine_info db n = Some m"
    and g: "numeric_value (dget m ''goodrx_price'') = Some g"
    and h: "float_holds (dget m ''goodrx_price'')"
    and t: "truthy (dget m ''goodrx_price'')"
  shows "cash_row s2f db n =
           Some \<lparr> medicine_name = n, insurance_name = ''GoodRx (CVS - DC)'', medicine = Some m,
                  insurance = None, coverage = None, annual_cost = Some (fmul g (Fin 12)),
                  monthly_cost = Some (fdiv12 (fmul g (Fin 12))), full_monthly = g,
                  full_annual = fmul g (Fin 12), goodrx_price = None, goodrx_eligible = False,
                  unauth_annual = None, copay_amount = None, monthly_savings = None,
                  annual_savings = None, is_cash = True, is_higher_tier = None \<rparr>"
proof -
  have c: "calculate_total_cost s2f (Some m) None None 12 = Inr (PFloat (fmul g (Fin 12)))"
    using calculate_cash [OF g h, of None s2f 12]
    by (simp add: covered_flag_def float_of_int_def fits_float_12)
  show ?thesis
    using numeric_value_Some [OF g h, of s2f] numeric_value_dict [OF g] m t c
    by (simp add: cash_row_def)
qed


text \<open>
  C5 at a medicine whose cash price is 0 (present, not \<^verbatim>\<open>None\<close>, not NaN), selected
  with the insurance left blank: the resolver prices it as cash (0 * 12 = 0, not the
  average monthly cost of 7 times 12), but the rows handed to the template are the two
  insurance rows and no cash row. At Glipizide, whose cash price is 25, the cash row is
  there, with full_annual = annual_cost = 300.
\<close>

theorem cash_row_zero_price:
  "get_medicine_info ex_db ''Zerocost'' = Some ex_zero
   \<and> numeric_value (dget ex_zero ''goodrx_price'') = Some (Fin 0)
   \<and> calculate_total_cost no_float (Some ex_zero) None None 12 = Inr (PFloat (Fin 0))
   \<and> map_sum id (\<lambda>pg. map (\<lambda>p. (insurance_name p, is_cash p)) (pg_pairings pg))
        (index_post keep_order no_float ex_db (ex_form \<lparr> f_medicine := Some ''Zerocost'' \<rparr>))
       = Inr [(''Cigna'', False), (''Aetna'', False)]
   \<and> map_sum id
        (\<lambda>pg. map (\<lambda>p. (insurance_name p, is_cash p, full_annual p, annual_cost p))
                (pg_pairings pg))
        (index_post keep_order no_float ex_db (ex_form \<lparr> f_medicine := Some ''Glipizide'' \<rparr>))
       = Inr [(''Cigna'', False, Fin 300, Some (Fin 108)),
              (''Aetna'', False, Fin 300, Some (Fin 110)),
              (''GoodRx (CVS - DC)'', True, Fin 300, Some (Fin 300))]"
  by (simp add: eval_defs ex_defs str_simps Let_def)

text \<open>
  C10, as stated, at a number of months that no float can hold, 2^1024: the product
  \<^verbatim>\<open>float(gr) * months\<close> raises \<^verbatim>\<open>OverflowError\<close> inside the \<^verbatim>\<open>try\<close>, the
  resolver goes on to the fallback, and the product of the average monthly cost 7.0 by the
  months raises again: it does not return 0.
\<close>

theorem zero_cash_price_months_counterexample:
  "dget ex_zero ''goodrx_price'' = PFloat (Fin 0)
   \<and> calculate_total_cost no_float (Some ex_zero) None None (2 ^ 1024) = Inl OverflowError"
  by (simp add: calculate_total_cost_def covered_flag_def goodrx_return_def dget_def
      dget_default_def ex_zero_def fmul_int_def fits_float_def bind_err_def)

text \<open>
  C10 (amended): for a medicine whose \<^verbatim>\<open>goodrx_price\<close> is exactly 0, the resolver with
  no insurance and no cover returns 0 * months = 0 for every number of months that a float
  can hold (12 in every call of the application; beyond the floats it falls back on the
  average monthly cost), \<^verbatim>\<open>add_pair\<close> sets goodrx_price to 0.0 and goodrx_eligible to
  true, and no cash row is inserted: the guard of the insertion tests the price as a
  condition, and 0 is false.
\<close>

theorem zero_cash_price:
  assumes "get_medicine_info db med_name = Some m"
    and "dget m ''goodrx_price'' = PInt 0 \<or> dget m ''goodrx_price'' = PFloat (Fin 0)"
    and "\<not> covered_flag cov"
  shows "calculate_total_cost s2f (Some m) None cov months
           = (if fits_float months then Inr (PFloat (Fin 0))
              else py_mul_int (dget_default m ''average_cost_per_month'' (PInt 0)) months)
       \<and> (\<forall>si ins_name p. add_pair s2f db si med_name ins_name = Inr p
             \<longrightarrow> goodrx_price p = Some (Fin 0) \<and> goodrx_eligible p)
       \<and> (\<forall>si rows. inject_cash s2f db (Some med_name) si rows = rows)"
proof -
  have nv: "numeric_value (dget m ''goodrx_price'') = Some (Fin 0)"
    and fh: "float_holds (dget m ''goodrx_price'')"
    using assms(2) by (auto simp: float_of_int_def fits_float_def)
  have a: "calculate_total_cost s2f (Some m) None cov months
           = (if fits_float months then Inr (PFloat (Fin 0))
              else py_mul_int (dget_default m ''average_cost_per_month'' (PInt 0)) months)"
    using calculate_cash [OF nv fh assms(3), of s2f months] by (simp add: float_of_int_def)
  have g: "goodrx_of s2f (Some m) = Some (Fin 0)"
    using assms(2) by (auto simp: goodrx_of_def float_of_int_def int_to_float_def fits_float_def)
  have b: "\<forall>si ins_name p. add_pair s2f db si med_name ins_name = Inr p
             \<longrightarrow> goodrx_price p = Some (Fin 0) \<and> goodrx_eligible p"
    using add_pair_fields(6,7) assms(1) g by simp
  have "cash_row s2f db med_name = None"
    using assms(1,2) by (auto simp: cash_row_def)
  then have c: "\<forall>si rows. inject_cash s2f db (Some med_name) si rows = rows"
    by (simp add: inject_cash_def name_of_def)
  show ?thesis using a b c by blast
qed

theorem zero_cash_price_witness:
  "get_medicine_info ex_db ''Zerocost'' = Some ex_zero
   \<and> dget ex_zero ''goodrx_price'' = PFloat (Fin 0)
   \<and> \<not> covered_flag None
   \<and> calculate_total_cost no_float (Some ex_zero) None None 12 = Inr (PFloat (Fin 0))
   \<and> map_sum id (\<lambda>p. (goodrx_price p, goodrx_eligible p))
        (add_pair no_float ex_db None ''Zerocost'' ''Cigna'') = Inr (Some (Fin 0), True)
   \<and> inject_cash no_float ex_db (Some ''Zerocost'') None [] = []"
proof -
  have h1: "get_medicine_info ex_db ''Zerocost'' = Some ex_zero"
    by (simp add: get_medicine_info_def ex_db_def)
  have h2: "dget ex_zero ''goodrx_price'' = PFloat (Fin 0)"
    by (simp add: ex_zero_def dget_def)
  have h3: "\<not> covered_flag None"
    by (simp add: covered_flag_def)
  have h2': "dget ex_zero ''goodrx_price'' = PInt 0 \<or> dget ex_zero ''goodrx_price'' = PFloat (Fin 0)"
    using h2 by simp
  obtain p where p: "add_pair no_float ex_db None ''Zerocost'' ''Cigna'' = Inr p"
    by (simp add: eval_defs ex_defs str_simps Let_def)
  show ?thesis
    using h1 h2 h3 p zero_cash_price [OF h1 h2' h3, of no_float 12]
    by (simp add: fits_float_12)
qed

subsection \<open>The pages of \<^verbatim>\<open>index\<close> and the tier flag\<close>

lemma higher_tier_iff:
  "higher_tier db m p =
     (\<exists>a b. tier_num (tier_level_of (coverage p)) = Some a
          \<and> tier_num (tier_level_of (get_coverage_info db (insurance_name p) m)) = Some b
          \<and> b < a)"
  by (auto simp: higher_tier_def Let_def split: option.splits)

lemma higher_tier_cong:
  "coverage q = coverage p \<Longrightarrow> insurance_name q = insurance_name p
     \<Longrightarrow> higher_tier db m q = higher_tier db m p"
  by (simp add: higher_tier_def)

lemma flagged_rows:
  assumes "q \<in> set (flag_higher_tier db m ps)"
  shows "is_higher_tier q = Some (higher_tier db m q) \<and> (\<exists>p \<in> set ps. medicine_name q = medicine_name p)"
proof -
  from assms obtain p where p: "p \<in> set ps"
    and q: "q = p \<lparr> is_higher_tier := Some (higher_tier db m p) \<rparr>"
    by (auto simp: flag_higher_tier_def)
  have "higher_tier db m q = higher_tier db m p"
    by (rule higher_tier_cong) (simp_all add: q)
  then show ?thesis using p q by auto
qed

lemma set_unauth_more:
  "medicine_name (set_unauth p) = medicine_name p"
  "higher_tier db m (set_unauth p) = higher_tier db m p"
  by (simp_all add: set_unauth_def higher_tier_def)

lemma results_selected_flagged:
  assumes "results_selected ns s2f db m i True sb so = Inr (cur, ps)" "p \<in> set ps"
  shows "is_higher_tier p = Some (higher_tier db m p)"
proof -
  from assms(1) obtain rows where
    sorted: "sort_pairings ns sb so (other_options db m i True rows) = Inr ps"
    by (rule results_selected_Inr)
  then have "p \<in> set (other_options db m i True rows)"
    using sort_pairings_set assms(2) by blast
  then show ?thesis using flagged_rows by (auto simp: other_options_def Let_def)
qed

lemma results_broad_flagged:
  assumes "results_broad ns s2f db sm si True sb so sa = Inr (cur, ps)" "chosen sm" "p \<in> set ps"
  shows "is_higher_tier p = Some (higher_tier db (name_of sm) p)"
proof -
  from assms(1) obtain rows where
    sorted: "sort_pairings ns sb so (broad_options s2f db sm si True rows) = Inr ps"
    by (rule results_broad_Inr)
  then have "p \<in> set (broad_options s2f db sm si True rows)"
    using sort_pairings_set assms(3) by blast
  then obtain q where q: "q \<in> set (flag_higher_tier db (name_of sm) (inject_cash s2f db sm si rows))"
    and p: "p = set_unauth q"
    using assms(2) by (auto simp: broad_options_def Let_def)
  show ?thesis
    using flagged_rows [OF q] by (simp add: p set_unauth_fields set_unauth_more)
qed

lemma or_none_Some: "or_none v = Some m \<Longrightarrow> chosen (or_none v) \<and> name_of (or_none v) = m \<and> m \<noteq> []"
  by (auto simp: or_none_def chosen_def name_of_def split: if_splits option.splits)

lemma index_post_results:
  assumes "index_post ns s2f db fm = Inr pg"
  obtains t where "trial_flow TRIAL_SEQUENCE fm = Inr t"
    and "pg_selected_medicine pg = or_none (if chosen (t_selected t) then t_selected t else f_medicine fm)"
    and "pg_selected_insurance pg = or_none (f_insurance fm)"
    and "pg_trial_question pg = t_question t" and "pg_trial_index pg = t_index t"
    and "(if t_skip t \<and> \<not> t_show_all t then pg_current pg = None \<and> pg_pairings pg = []
        else if chosen (pg_selected_medicine pg) \<and> chosen (pg_selected_insurance pg) then
          results_selected ns s2f db (name_of (pg_selected_medicine pg))
            (name_of (pg_selected_insurance pg)) (f_tried fm = Some ''on'') (form_sort_by fm)
            (form_order fm)
            = Inr (pg_current pg, pg_pairings pg)
        else
          results_broad ns s2f db (pg_selected_medicine pg) (pg_selected_insurance pg)
            (f_tried fm = Some ''on'') (form_sort_by fm) (form_order fm) (t_show_all t)
            = Inr (pg_current pg, pg_pairings pg))"
proof -
  from assms obtain t where t: "trial_flow TRIAL_SEQUENCE fm = Inr t"
    by (auto simp: index_post_def bind_err_Inr)
  define sm where "sm = or_none (if chosen (t_selected t) then t_selected t else f_medicine fm)"
  define si where "si = or_none (f_insurance fm)"
  define res where "res = (if t_skip t \<and> \<not> t_show_all t then Inr (None, [])
              else if chosen sm \<and> chosen si then
                results_selected ns s2f db (name_of sm) (name_of si) (f_tried fm = Some ''on'')
                  (form_sort_by fm) (form_order fm)
              else
                results_broad ns s2f db sm si (f_tried fm = Some ''on'') (form_sort_by fm)
                  (form_order fm) (t_show_all t))"
  have "index_post ns s2f db fm =
      bind_err res (\<lambda>(current, pairings).
                Inr \<lparr> pg_selected_medicine = sm, pg_selected_insurance = si,
                       pg_current = current, pg_pairings = pairings,
                       pg_trial_question = t_question t, pg_trial_index = t_index t \<rparr>)"
    unfolding index_post_def t res_def sm_def si_def
    by (simp add: bind_err_def Let_def)
  with assms obtain cur ps where r: "res = Inr (cur, ps)"
    and pg: "pg = \<lparr> pg_selected_medicine = sm, pg_selected_insurance = si,
                       pg_current = cur, pg_pairings = ps,
                       pg_trial_question = t_question t, pg_trial_index = t_index t \<rparr>"
    by (auto simp: bind_err_Inr)
  have "(if t_skip t \<and> \<not> t_show_all t then pg_current pg = None \<and> pg_pairings pg = []
        else if chosen (pg_selected_medicine pg) \<and> chosen (pg_selected_insurance pg) then
          results_selected ns s2f db (name_of (pg_selected_medicine pg))
            (name_of (pg_selected_insurance pg)) (f_tried fm = Some ''on'') (form_sort_by fm)
            (form_order fm)
            = Inr (pg_current pg, pg_pairings pg)
        else
          results_broad ns s2f db (pg_selected_medicine pg) (pg_selected_insurance pg)
            (f_tried fm = Some ''on'') (form_sort_by fm) (form_order fm) (t_show_all t)
            = Inr (pg_current pg, pg_pairings pg))"
    using r by (auto simp: pg res_def split: if_splits)
  then show thesis
    using that [of t] t pg sm_def si_def by simp
qed

lemma chosen_Some: "chosen v \<Longrightarrow> v = Some (name_of v)"
  by (auto simp: chosen_def name_of_def split: option.splits)

lemma or_none_chosen: "or_none v = Some m \<Longrightarrow> chosen (Some m)"
  by (auto simp: or_none_def split: if_splits)

lemma index_post_tried:
  assumes "index_post ns s2f db fm = Inr pg" "f_tried fm = Some ''on''"
    "pg_selected_medicine pg = Some m" "p \<in> set (pg_pairings pg)"
  shows "is_higher_tier p = Some (higher_tier db m p)"
proof -
  from assms(1) obtain t where
    tf: "trial_flow TRIAL_SEQUENCE fm = Inr t" and
    sel: "pg_selected_medicine pg = or_none (if chosen (t_selected t) then t_selected t else f_medicine fm)"
    and "pg_selected_insurance pg = or_none (f_insurance fm)"
    and "pg_trial_question pg = t_question t" and "pg_trial_index pg = t_index t"
    and res: "(if t_skip t \<and> \<not> t_show_all t then pg_current pg = None \<and> pg_pairings pg = []
        else if chosen (pg_selected_medicine pg) \<and> chosen (pg_selected_insurance pg) then
          results_selected ns s2f db (name_of (pg_selected_medicine pg))
            (name_of (pg_selected_insurance pg)) (f_tried fm = Some ''on'') (form_sort_by fm)
            (form_order fm)
            = Inr (pg_current pg, pg_pairings pg)
        else
          results_broad ns s2f db (pg_selected_medicine pg) (pg_selected_insurance pg)
            (f_tried fm = Some ''on'') (form_sort_by fm) (form_order fm) (t_show_all t)
            = Inr (pg_current pg, pg_pairings pg))"
    by (rule index_post_results)
  have ch: "chosen (Some m)"
    using sel assms(3) or_none_chosen by metis
  have nm: "name_of (Some m) = m" by (simp add: name_of_def)
  show ?thesis
    using res assms(2,4) ch
    by (auto simp: assms(3) nm split: if_splits
        dest: results_selected_flagged results_broad_flagged)
qed

text \<open>
  C8: when the form's \<^verbatim>\<open>tried\<close> box is on and a medicine M is selected, every pairing
  handed to the template has is_higher_tier true exactly when the tier of M under the
  pairing's insurance and the pairing's own tier both parse as numbers and the pairing's is
  strictly greater. \<^verbatim>\<open>tier_num\<close> returns \<^verbatim>\<open>None\<close> where its body raises
  (\<^verbatim>\<open>'Tier 2'\<close> is 2, and \<^verbatim>\<open>'Tier 1'\<close> with a no-break space for the blank is 1;
  an absent tier or text that is no number is \<^verbatim>\<open>None\<close>), and then the flag is false.
\<close>

theorem higher_tier_flag:
  assumes "index_post ns s2f db fm = Inr pg" "f_tried fm = Some ''on''"
    and "pg_selected_medicine pg = Some m" "p \<in> set (pg_pairings pg)"
  shows "is_higher_tier p =
           Some (\<exists>a b. tier_num (tier_level_of (coverage p)) = Some a
                 \<and> tier_num (tier_level_of (get_coverage_info db (insurance_name p) m)) = Some b
                 \<and> b < a)
       \<and> (\<forall>v e. tier_num_body v = Inl e \<longrightarrow> tier_num v = None)
       \<and> tier_num (PStr ''Tier 2'') = Some 2
       \<and> tier_num (PStr (''Tier'' @ CHR 0xA0 # ''1'')) = Some 1
       \<and> tier_num (PStr ''Not covered'') = None
       \<and> tier_num PNone = None"
proof -
  have "is_higher_tier p = Some (higher_tier db m p)"
    using assms by (rule index_post_tried)
  moreover have "tier_num (PStr ''Tier 2'') = Some 2" "tier_num (PStr ''Not covered'') = None"
    "tier_num PNone = None" "tier_num (PStr (''Tier'' @ CHR 0xA0 # ''1'')) = Some 1"
    by (simp_all add: tier_num_def py_int_str_def digit_val_def str_simps)
  moreover have "\<forall>v e. tier_num_body v = Inl e \<longrightarrow> tier_num v = None"
    by (simp add: tier_num_def)
  ultimately show ?thesis
    by (simp only: higher_tier_iff simp_thms)
qed

text \<open>After the whole trial sequence, with Metformin named in the form: Glipizide under Cigna
  is tier 3, Metformin under Cigna tier 1.\<close>

theorem higher_tier_flag_witness:
  "\<exists>pg p. index_post keep_order no_float ex_db ex_form_tried = Inr pg
     \<and> f_tried ex_form_tried = Some ''on''
     \<and> pg_selected_medicine pg = Some ''Metformin''
     \<and> p \<in> set (pg_pairings pg)
     \<and> medicine_name p = ''Glipizide'' \<and> insurance_name p = ''Cigna''
     \<and> is_higher_tier p = Some True"
proof -
  obtain pg where pg: "index_post keep_order no_float ex_db ex_form_tried = Inr pg"
    and sel: "pg_selected_medicine pg = Some ''Metformin''"
    and len: "length (pg_pairings pg) = 6"
    and row: "medicine_name (pg_pairings pg ! 3) = ''Glipizide''"
      "insurance_name (pg_pairings pg ! 3) = ''Cigna''"
      "coverage (pg_pairings pg ! 3) = Some ex_no"
    by (simp add: eval_defs ex_defs ex_form_tried_def str_simps Let_def)
  have tr: "f_tried ex_form_tried = Some ''on''"
    by (simp add: ex_form_tried_def ex_form_def)
  have mem: "pg_pairings pg ! 3 \<in> set (pg_pairings pg)"
    using len by simp
  have t3: "tier_num (tier_level_of (Some ex_no)) = Some 3"
    and t1: "tier_num (tier_level_of (get_coverage_info ex_db ''Cigna'' ''Metformin'')) = Some 1"
    by (simp_all add: tier_num_def tier_level_of_def get_coverage_info_def py_int_str_def
        digit_val_def str_simps dget_def ex_defs)
  have "is_higher_tier (pg_pairings pg ! 3) = Some True"
    using higher_tier_flag [OF pg tr sel mem] row t3 t1 by simp
  then show ?thesis
    using pg tr sel mem row by blast
qed

subsection \<open>The trial flow\<close>


lemma build_pairings_medicine:
  assumes "chosen sm" "build_pairings s2f db sm si = Inr rows" "p \<in> set rows"
  shows "medicine_name p = name_of sm"
  using assms add_pair_fields(3)
  by (auto simp: build_pairings_def Let_def bind_err_Inr split: if_splits dest!: collect_Inr)




lemma other_options_medicine:
  assumes "\<forall>q \<in> set rows. medicine_name q = m" "p \<in> set (other_options db m' i tried rows)"
  shows "medicine_name p = m"
  using assms
  by (auto simp: other_options_def Let_def set_unauth_more split: if_splits dest!: flagged_rows)

lemma broad_options_medicine:
  assumes "\<forall>q \<in> set rows. medicine_name q = name_of sm" "chosen sm"
    "p \<in> set (broad_options s2f db sm si tried rows)"
  shows "medicine_name p = name_of sm"
proof -
  have c: "\<forall>q \<in> set (inject_cash s2f db sm si rows). medicine_name q = name_of sm"
    using assms(1) cash_row_fields(3) by (auto dest!: set_inject_cash)
  show ?thesis
    using assms(3) c
    by (auto simp: broad_options_def Let_def set_unauth_more split: if_splits dest!: flagged_rows)
qed

lemma results_selected_medicine:
  assumes "results_selected ns s2f db m i tried sb so = Inr (cur, ps)" "m \<noteq> []" "p \<in> set ps"
  shows "medicine_name p = m"
proof -
  from assms(1) obtain rows where
    rows: "build_pairings s2f db (Some m) None = Inr rows" and
    sorted: "sort_pairings ns sb so (other_options db m i tried rows) = Inr ps"
    by (rule results_selected_Inr)
  have r: "\<forall>q \<in> set rows. medicine_name q = m"
    using build_pairings_medicine [OF _ rows] assms(2) by (simp add: chosen_def name_of_def)
  have "p \<in> set (other_options db m i tried rows)"
    using sort_pairings_set [OF sorted] assms(3) by simp
  then show ?thesis
    using r other_options_medicine by blast
qed

lemma results_broad_medicine:
  assumes "results_broad ns s2f db sm si tried sb so False = Inr (cur, ps)" "chosen sm" "p \<in> set ps"
  shows "medicine_name p = name_of sm"
proof -
  from assms(1) obtain rows where
    rows: "build_pairings s2f db sm si = Inr rows" and
    sorted: "sort_pairings ns sb so (broad_options s2f db sm si tried rows) = Inr ps"
    by (rule results_broad_Inr) simp
  have r: "\<forall>q \<in> set rows. medicine_name q = name_of sm"
    using build_pairings_medicine [OF assms(2) rows] by simp
  have "p \<in> set (broad_options s2f db sm si tried rows)"
    using sort_pairings_set [OF sorted] assms(3) by simp
  then show ?thesis
    using r assms(2) broad_options_medicine by blast
qed












subsection \<open>The sort\<close>

lemma py_sort_sorted:
  "sorted (map k (py_sort k False xs))" "sorted (rev (map k (py_sort k True xs)))"
  by (simp_all add: py_sort_def rev_map)

lemma py_sort_stable:
  "filter (\<lambda>x. k x = c) (py_sort k r xs) = filter (\<lambda>x. k x = c) xs"
proof (cases r)
  case True
  have "filter (\<lambda>x. k x = c) (rev (sort_key k (rev xs)))
          = rev (filter (\<lambda>x. k x = c) (sort_key k (rev xs)))"
    by (simp add: rev_filter)
  also have "\<dots> = rev (filter (\<lambda>x. k x = c) (rev xs))"
    by (simp only: sort_key_stable)
  also have "\<dots> = filter (\<lambda>x. k x = c) xs"
    by (simp add: rev_filter)
  finally show ?thesis using True by (simp add: py_sort_def)
next
  case False
  then show ?thesis by (simp add: py_sort_def sort_key_stable)
qed

lemma sort_key_rev_distinct:
  assumes "distinct (map k xs)"
  shows "sort_key k (rev xs) = sort_key k xs"
proof -
  have inj: "inj_on k (set xs)" and d: "distinct xs"
    using assms by (simp_all add: distinct_map)
  have d1: "distinct (map k (sort_key k (rev xs)))" and d2: "distinct (map k (sort_key k xs))"
    using inj d by (simp_all add: distinct_map)
  show ?thesis
    by (rule map_sorted_distinct_set_unique [of k]) (use inj d1 d2 in simp_all)
qed

lemma py_sort_reverse:
  "distinct (map k xs) \<Longrightarrow> py_sort k True xs = rev (py_sort k False xs)"
  by (simp add: py_sort_def sort_key_rev_distinct)

lemma ext_bounds: "ext_of f \<le> ext_of PosInf" "ext_of NegInf \<le> ext_of f"
  by (cases f; simp add: less_eq_ext_def)+

lemma ext_of_inj: "f \<noteq> NaN \<Longrightarrow> g \<noteq> NaN \<Longrightarrow> ext_of f = ext_of g \<Longrightarrow> f = g"
  by (cases f; cases g) simp_all

lemma distinct_ext_keys:
  assumes "NaN \<notin> set (map kf ps)" "distinct (map kf ps)"
  shows "distinct (map (\<lambda>p. ext_of (kf p)) ps)"
proof -
  have "inj_on ext_of (set (map kf ps))"
    using assms(1) by (intro inj_onI) (metis ext_of_inj)
  then have "distinct (map ext_of (map kf ps))"
    using assms(2) by (subst distinct_map) simp
  then show ?thesis by (simp add: comp_def)
qed

lemma sort_pairings_names:
  "sort_by = ''medicine'' \<or> sort_by = ''insurance'' \<Longrightarrow>
     sort_pairings ns sort_by sort_order ps
       = Inr (py_sort (key_name sort_by) (sort_order = ''desc'') ps)"
  by (auto simp: sort_pairings_def)

lemma sort_pairings_floats:
  "sort_by \<noteq> ''medicine'' \<Longrightarrow> sort_by \<noteq> ''insurance''
     \<Longrightarrow> NaN \<notin> set (map (key_float sort_by) ps)
     \<Longrightarrow> sort_pairings ns sort_by sort_order ps
           = Inr (py_sort (\<lambda>p. ext_of (key_float sort_by p)) (sort_order = ''desc'') ps)"
proof -
  assume a: "sort_by \<noteq> ''medicine''" "sort_by \<noteq> ''insurance''"
    and n: "NaN \<notin> set (map (key_float sort_by) ps)"
  have "\<not> list_ex (\<lambda>p. key_float sort_by p = NaN) ps"
  proof
    assume "list_ex (\<lambda>p. key_float sort_by p = NaN) ps"
    then obtain p where "p \<in> set ps" "key_float sort_by p = NaN"
      by (auto simp: list_ex_iff)
    then have "NaN \<in> set (map (key_float sort_by) ps)"
      by force
    with n show False by simp
  qed
  then show ?thesis
    using a by (simp add: sort_pairings_def)
qed

text \<open>
  C6, as stated, at Glipizide with the insurance left blank, sorted by \<^verbatim>\<open>savings\<close> in
  ascending order: the cash row, whose annual savings are missing, comes first, not last.
\<close>

theorem sort_savings_counterexample:
  "map_sum id (\<lambda>pg. map annual_savings (pg_pairings pg))
     (index_post keep_order no_float ex_db
        (ex_form \<lparr> f_medicine := Some ''Glipizide'', f_sort_by := Some ''savings'',
                   f_order := Some ''asc'' \<rparr>))
     = Inr [None, Some (Fin 190), Some (Fin 192)]"
  by (simp add: eval_defs ex_defs str_simps Let_def)

text \<open>
  C6 (amended): the sort is a stable sort by the key. For every key function into a linear
  order, the ascending result is sorted, the descending result is sorted downwards, both keep
  the rows of equal key in the order they had (\<^verbatim>\<open>order=desc\<close> turns the comparison
  round and not the ties), and when no two rows share a key the descending result is the
  ascending one reversed. \<^verbatim>\<open>index\<close> sorts so by the lowercased name, or, when no key
  is NaN, by the float key, in which a missing monthly or annual cost is +infinity, the
  greatest key (last in ascending order), and a missing annual saving is -infinity, the
  least key (first in ascending order, last in descending order). With a NaN key the sort
  returns the same rows in an order that this development leaves open.
\<close>

theorem sort_stage:
  fixes k :: "'a \<Rightarrow> 'k::linorder"
  shows "sorted (map k (py_sort k False xs)) \<and> sorted (rev (map k (py_sort k True xs)))
    \<and> (\<forall>c r. filter (\<lambda>x. k x = c) (py_sort k r xs) = filter (\<lambda>x. k x = c) xs)
    \<and> (distinct (map k xs) \<longrightarrow> py_sort k True xs = rev (py_sort k False xs))
    \<and> (sort_by = ''medicine'' \<or> sort_by = ''insurance'' \<longrightarrow>
          sort_pairings ns sort_by sort_order ps
            = Inr (py_sort (key_name sort_by) (sort_order = ''desc'') ps))
    \<and> (sort_by \<noteq> ''medicine'' \<and> sort_by \<noteq> ''insurance''
          \<and> NaN \<notin> set (map (key_float sort_by) ps) \<longrightarrow>
          sort_pairings ns sort_by sort_order ps
            = Inr (py_sort (\<lambda>p. ext_of (key_float sort_by p)) (sort_order = ''desc'') ps)
          \<and> (distinct (map (key_float sort_by) ps) \<longrightarrow>
               (\<exists>asc. sort_pairings ns sort_by ''asc'' ps = Inr asc
                   \<and> sort_pairings ns sort_by ''desc'' ps = Inr (rev asc))))
    \<and> (monthly_cost p = None \<longrightarrow> key_float ''monthly'' p = PosInf)
    \<and> (annual_cost p = None \<and> sort_by \<noteq> ''monthly'' \<and> sort_by \<noteq> ''savings'' \<longrightarrow>
          key_float sort_by p = PosInf)
    \<and> (annual_savings p = None \<longrightarrow> key_float ''savings'' p = NegInf)
    \<and> (\<forall>f. ext_of f \<le> ext_of PosInf \<and> ext_of NegInf \<le> ext_of f)
    \<and> (\<exists>sorted. sort_pairings ns sort_by sort_order ps = Inr sorted
          \<and> set sorted = set ps \<and> length sorted = length ps)"
proof -
  have rev_case: "\<exists>asc. sort_pairings ns sort_by ''asc'' ps = Inr asc
                   \<and> sort_pairings ns sort_by ''desc'' ps = Inr (rev asc)"
    if a: "sort_by \<noteq> ''medicine''" "sort_by \<noteq> ''insurance''"
      and n: "NaN \<notin> set (map (key_float sort_by) ps)"
      and d: "distinct (map (key_float sort_by) ps)"
  proof -
    have "py_sort (\<lambda>p. ext_of (key_float sort_by p)) True ps
            = rev (py_sort (\<lambda>p. ext_of (key_float sort_by p)) False ps)"
      by (rule py_sort_reverse) (rule distinct_ext_keys [OF n d])
    then show ?thesis
      using sort_pairings_floats [OF a n, of ns "''asc''"]
        sort_pairings_floats [OF a n, of ns "''desc''"]
      by simp
  qed
  have keys: "monthly_cost p = None \<longrightarrow> key_float ''monthly'' p = PosInf"
    "annual_cost p = None \<and> sort_by \<noteq> ''monthly'' \<and> sort_by \<noteq> ''savings'' \<longrightarrow>
          key_float sort_by p = PosInf"
    "annual_savings p = None \<longrightarrow> key_float ''savings'' p = NegInf"
    by (simp_all add: key_float_def)
  have total: "\<exists>sorted. sort_pairings ns sort_by sort_order ps = Inr sorted
          \<and> set sorted = set ps \<and> length sorted = length ps"
    using sort_pairings_total [of ns sort_by sort_order ps] sort_pairings_set sort_pairings_length
    by blast
  show ?thesis
    using py_sort_sorted [of k xs] py_sort_stable [of k _ _ xs] py_sort_reverse [of k xs]
      sort_pairings_names [of sort_by ns sort_order ps]
      sort_pairings_floats [of sort_by ps ns sort_order] rev_case keys ext_bounds total
    by (intro conjI impI allI) (simp_all only: simp_thms)
qed

text \<open>The cash row and the two insurance rows of Glipizide, by annual cost.\<close>

theorem sort_stage_witness:
  "\<exists>rows c. build_pairings no_float ex_db (Some ''Glipizide'') None = Inr rows
     \<and> cash_row no_float ex_db ''Glipizide'' = Some c
     \<and> ''annual'' \<noteq> ''medicine'' \<and> ''annual'' \<noteq> ''insurance''
     \<and> map (key_float ''annual'') (c # rows) = [Fin 300, Fin 108, Fin 110]
     \<and> NaN \<notin> set (map (key_float ''annual'') (c # rows))
     \<and> distinct (map (key_float ''annual'') (c # rows))
     \<and> (\<exists>asc. sort_pairings keep_order ''annual'' ''asc'' (c # rows) = Inr asc
            \<and> sort_pairings keep_order ''annual'' ''desc'' (c # rows) = Inr (rev asc))
     \<and> annual_savings c = None \<and> key_float ''savings'' c = NegInf"
proof -
  obtain rows where rows: "build_pairings no_float ex_db (Some ''Glipizide'') None = Inr rows"
    and ac: "map annual_cost rows = [Some (Fin 108), Some (Fin 110)]"
    by (simp add: eval_defs ex_defs str_simps Let_def)
  obtain c where c: "cash_row no_float ex_db ''Glipizide'' = Some c"
    and cc: "annual_cost c = Some (Fin 300)" and cs: "annual_savings c = None"
    by (simp add: eval_defs ex_defs str_simps Let_def)
  have kf: "map (key_float ''annual'') (c # rows) = [Fin 300, Fin 108, Fin 110]"
    using ac cc by (auto simp: key_float_def)
  have n: "NaN \<notin> set (map (key_float ''annual'') (c # rows))"
    and d: "distinct (map (key_float ''annual'') (c # rows))"
    unfolding kf by simp_all
  have s: "''annual'' \<noteq> ''medicine''" "''annual'' \<noteq> ''insurance''"
    by simp_all
  have "(\<exists>asc. sort_pairings keep_order ''annual'' ''asc'' (c # rows) = Inr asc
            \<and> sort_pairings keep_order ''annual'' ''desc'' (c # rows) = Inr (rev asc))
        \<and> key_float ''savings'' c = NegInf"
    using sort_stage [where sort_by = "''annual''" and ps = "c # rows" and p = c
        and k = "\<lambda>p. ext_of (key_float ''annual'' p)" and xs = "c # rows"
        and sort_order = "''asc''" and ns = keep_order] s n d cs
    by blast
  then show ?thesis
    using rows c s kf n d cs
    by (intro exI [of _ rows] exI [of _ c]) (simp only: simp_thms)
qed

end
